theory Spec2Isabelle
  imports Complex_Main
begin

section \<open>Arrays, errors and elementary array operations\<close>

text \<open>
  The source is numerical Python. A float64 array entry is modelled by an exact real number,
  a two-dimensional array by the list of its rows, and a raised exception by \<open>Inl\<close> of the
  exception's class.
\<close>

datatype error =
    ValueError
  | IndexError
  | KeyError
  | AttributeError
  | ZeroDivisionError
  | LinAlgError
  | NonFinite

type_synonym matrix = "real list list"

text \<open>\<^verbatim>\<open>np.identity(n)\<close>, \<^verbatim>\<open>np.identity(n, dtype=bool)\<close> and \<^verbatim>\<open>np.ones((n, m))\<close>.\<close>

definition identity_real :: "nat \<Rightarrow> matrix" where
  "identity_real n = map (\<lambda>i. map (\<lambda>j. if i = j then 1 else 0) [0..<n]) [0..<n]"

definition identity_bool :: "nat \<Rightarrow> bool list list" where
  "identity_bool n = map (\<lambda>i. map (\<lambda>j. i = j) [0..<n]) [0..<n]"

definition ones :: "nat \<Rightarrow> nat \<Rightarrow> matrix" where
  "ones n m = replicate n (replicate m 1)"

text \<open>\<^verbatim>\<open>a * c\<close> and \<^verbatim>\<open>a / c\<close> for an array and a scalar, \<^verbatim>\<open>~b\<close> for a boolean array.\<close>

definition times_scalar :: "matrix \<Rightarrow> real \<Rightarrow> matrix" where
  "times_scalar a c = map (map (\<lambda>x. x * c)) a"

definition divide_scalar :: "matrix \<Rightarrow> real \<Rightarrow> matrix" where
  "divide_scalar a c = map (map (\<lambda>x. x / c)) a"

definition invert :: "bool list list \<Rightarrow> bool list list" where
  "invert b = map (map Not) b"

text \<open>\<^verbatim>\<open>a[b] = v\<close> for a boolean array \<open>b\<close> of the shape of \<open>a\<close>.\<close>

definition assign_where :: "matrix \<Rightarrow> bool list list \<Rightarrow> real \<Rightarrow> matrix" where
  "assign_where a b v = map2 (\<lambda>row brow. map2 (\<lambda>x c. if c then v else x) row brow) a b"

section \<open>Discrete (regime to regime) transition builders\<close>

text \<open>
  \<^verbatim>\<open>np.identity\<close> and \<^verbatim>\<open>np.ones\<close> refuse a negative dimension with a ValueError. In
  \<^verbatim>\<open>strong_diagonal_discrete\<close> the quotient \<^verbatim>\<open>(1 - diag) / (n_states - 1)\<close> is a quotient of
  Python numbers, which raises for \<^verbatim>\<open>n_states = 1\<close>.
\<close>

definition identity_discrete :: "int \<Rightarrow> error + matrix" where
  "identity_discrete n_states =
     (if n_states < 0 then Inl ValueError else Inr (identity_real (nat n_states)))"

definition strong_diagonal_discrete :: "int \<Rightarrow> real \<Rightarrow> error + matrix" where
  "strong_diagonal_discrete n_states diag =
     (if n_states < 0 then Inl ValueError
      else
        let strong_diagonal = times_scalar (identity_real (nat n_states)) diag;
            is_off_diag = invert (identity_bool (nat n_states))
        in if n_states - 1 = 0 then Inl ZeroDivisionError
           else Inr (assign_where strong_diagonal is_off_diag
                       ((1 - diag) / real_of_int (n_states - 1))))"

definition uniform_discrete :: "int \<Rightarrow> error + matrix" where
  "uniform_discrete n_states =
     (if n_states < 0 then Inl ValueError
      else Inr (divide_scalar (ones (nat n_states) (nat n_states)) (real_of_int n_states)))"

section \<open>Row normalisation and matrix powers\<close>

text \<open>
  \<^verbatim>\<open>_normalize_row_probability\<close> divides every row by its sum and then overwrites the NaN
  entries with 0. In float64 a zero entry over a zero row sum is NaN (and becomes 0), while
  a non-zero entry over a zero row sum is an infinity, which stays in the array. The real
  numbers have no value for that, so the model reports it as \<open>Inl NonFinite\<close>.
\<close>

fun sequence :: "(error + 'a) list \<Rightarrow> error + 'a list" where
  "sequence [] = Inr []"
| "sequence (x # xs) =
     (case x of Inl e \<Rightarrow> Inl e
      | Inr v \<Rightarrow> (case sequence xs of Inl e \<Rightarrow> Inl e | Inr vs \<Rightarrow> Inr (v # vs)))"

definition normalize_row :: "real list \<Rightarrow> error + real list" where
  "normalize_row row =
     (let s = sum_list row in
      if s \<noteq> 0 then Inr (map (\<lambda>v. v / s) row)
      else if list_all (\<lambda>v. v = 0) row then Inr (map (\<lambda>v. 0) row)
      else Inl NonFinite)"

definition normalize_row_probability :: "matrix \<Rightarrow> error + matrix" where
  "normalize_row_probability x = sequence (map normalize_row x)"

text \<open>
  \<^verbatim>\<open>_fix_zero_bins\<close>: every row without mass is set to \<open>1 / n_bins\<close>. (No function of the
  module calls it.) The quotient is one of Python numbers.
\<close>

definition fix_zero_bins :: "matrix \<Rightarrow> error + matrix" where
  "fix_zero_bins movement_bins =
     (let n_bins = length movement_bins in
      if n_bins = 0 then Inl ZeroDivisionError
      else Inr (map (\<lambda>row. if sum_list row = 0 then map (\<lambda>v. 1 / real n_bins) row else row)
                  movement_bins))"

text \<open>
  \<^verbatim>\<open>np.linalg.matrix_power(a, n)\<close> for \<open>n \<ge> 0\<close>: the n-fold product of a square matrix
  (numpy groups the factors by the binary digits of \<open>n\<close>, which gives the same product
  over the reals), the identity for \<open>n = 0\<close>, and LinAlgError for an array that is not
  square. A negative exponent, for which numpy inverts the matrix, is not modelled:
  the exponent is a natural number.
\<close>

definition dot :: "matrix \<Rightarrow> matrix \<Rightarrow> matrix" where
  "dot a b =
     map (\<lambda>row. map (\<lambda>j. sum_list (map2 (*) row (map (\<lambda>brow. brow ! j) b))) [0..<length b]) a"

fun power_loop :: "matrix \<Rightarrow> nat \<Rightarrow> matrix" where
  "power_loop a 0 = identity_real (length a)"
| "power_loop a (Suc n) = dot a (power_loop a n)"

definition matrix_power :: "matrix \<Rightarrow> nat \<Rightarrow> error + matrix" where
  "matrix_power a n =
     (if list_all (\<lambda>row. length row = length a) a then Inr (power_loop a n)
      else Inl LinAlgError)"

text \<open>Two notions for stating properties: a square array of size \<open>n\<close>, and the row sums.\<close>

definition square :: "nat \<Rightarrow> matrix \<Rightarrow> bool" where
  "square n a = (length a = n \<and> list_all (\<lambda>row. length row = n) a)"

definition row_sums :: "matrix \<Rightarrow> real list" where
  "row_sums a = map sum_list a"



section \<open>Continuous builders that use the track-interior mask\<close>

text \<open>
  An array of any number of dimensions is its shape together with its entries in row-major
  order (numpy's default layout). \<^verbatim>\<open>a.ravel(order='F')\<close> lists the entries with the
  first index running fastest.
\<close>

record 'a ndarray =
  shape :: "nat list"
  data :: "'a list"

fun unravel_F :: "nat list \<Rightarrow> nat \<Rightarrow> nat list" where
  "unravel_F [] f = []"
| "unravel_F (n # ns) f = (f mod n) # unravel_F ns (f div n)"

definition unravel_C :: "nat list \<Rightarrow> nat \<Rightarrow> nat list" where
  "unravel_C ns c = rev (unravel_F (rev ns) c)"

definition ravel_C :: "nat list \<Rightarrow> nat list \<Rightarrow> nat" where
  "ravel_C ns idx = foldl (\<lambda>acc (n, i). acc * n + i) 0 (zip ns idx)"

definition ravel_F :: "'a ndarray \<Rightarrow> 'a list" where
  "ravel_F a =
     map (\<lambda>f. data a ! ravel_C (shape a) (unravel_F (shape a) f)) [0..<prod_list (shape a)]"

text \<open>
  \<^verbatim>\<open>a[~keep] = 0.0\<close> and \<^verbatim>\<open>a[:, ~keep] = 0.0\<close> for a one-dimensional boolean array
  \<open>keep\<close>: numpy raises IndexError unless \<open>keep\<close> is as long as the indexed axis.
\<close>

definition zero_rows :: "matrix \<Rightarrow> bool list \<Rightarrow> matrix" where
  "zero_rows a keep = map2 (\<lambda>row k. if k then row else map (\<lambda>v. 0) row) a keep"

definition zero_columns :: "matrix \<Rightarrow> bool list \<Rightarrow> matrix" where
  "zero_columns a keep = map (\<lambda>row. map2 (\<lambda>v k. if k then v else 0) row keep) a"

definition uniform_state_transition :: "real list list \<Rightarrow> bool ndarray \<Rightarrow> error + matrix" where
  "uniform_state_transition place_bin_centers is_track_interior =
     (let n_bins = length place_bin_centers;
          transition_matrix = ones n_bins n_bins;
          is_track_interior = ravel_F is_track_interior
      in if length is_track_interior \<noteq> n_bins then Inl IndexError
         else normalize_row_probability
                (zero_columns (zero_rows transition_matrix is_track_interior) is_track_interior))"

definition identity :: "real list list \<Rightarrow> bool ndarray \<Rightarrow> error + matrix" where
  "identity place_bin_centers is_track_interior =
     (let n_bins = length place_bin_centers;
          transition_matrix = identity_real n_bins;
          is_track_interior = ravel_F is_track_interior
      in if length is_track_interior \<noteq> n_bins then Inl IndexError
         else normalize_row_probability
                (zero_columns (zero_rows transition_matrix is_track_interior) is_track_interior))"


section \<open>The empirical movement builder\<close>

text \<open>
  \<^verbatim>\<open>a[keep]\<close> for a one-dimensional boolean array \<open>keep\<close> selects along the first axis and
  raises IndexError unless the mask is as long as that axis.
\<close>

definition boolean_index :: "'a list \<Rightarrow> bool list \<Rightarrow> error + 'a list" where
  "boolean_index a keep =
     (if length keep \<noteq> length a then Inl IndexError
      else Inr (map fst (filter snd (zip a keep))))"

text \<open>
  \<^verbatim>\<open>np.histogramdd(sample, bins, range=extent)\<close> for \<open>bins\<close> a list of edge arrays, one per
  column of the sample. The sample is an array of \<open>n_dims\<close> columns, a number that its list
  of rows does not determine when it is empty. A sample is counted in the bin \<open>c - 1\<close> of a
  dimension when \<open>c\<close>, the number of edges not above its coordinate (one less for a
  coordinate on the last edge), lies between the outlier bins \<open>0\<close> and \<open>length e\<close>. With
  explicit edges \<open>extent\<close> is only checked for its length.
\<close>

definition bin_number :: "real list \<Rightarrow> real \<Rightarrow> nat" where
  "bin_number e x =
     (let c = length (filter (\<lambda>v. v \<le> x) e) in if x = last e then c - 1 else c)"

definition bin_index :: "real list list \<Rightarrow> real list \<Rightarrow> nat list option" where
  "bin_index bins x =
     (let counts = map2 bin_number bins x in
      if list_all (\<lambda>(e, c). 1 \<le> c \<and> c < length e) (zip bins counts)
      then Some (map (\<lambda>c. c - 1) counts) else None)"

definition histogramdd ::
  "real list list \<Rightarrow> nat \<Rightarrow> real list list \<Rightarrow> (real \<times> real) option list option
     \<Rightarrow> error + real ndarray" where
  "histogramdd sample n_dims bins extent =
     (if \<not> list_all (\<lambda>x. length x = n_dims) sample \<or> n_dims \<noteq> length bins
        then Inl ValueError
      else if (case extent of None \<Rightarrow> False | Some r \<Rightarrow> length r \<noteq> length bins)
        then Inl ValueError
      else if \<not> list_all sorted bins then Inl ValueError
      else if \<not> list_all (\<lambda>e. e \<noteq> []) bins then Inl IndexError
      else
        let nbin = map (\<lambda>e. length e - 1) bins in
        Inr \<lparr>shape = nbin,
             data = map (\<lambda>c. real (length (filter (\<lambda>x. bin_index bins x = Some (unravel_C nbin c))
                                               sample)))
                      [0..<prod_list nbin]\<rparr>)"

text \<open>\<^verbatim>\<open>a.reshape((n, m), order='F')\<close>.\<close>

definition reshape_F :: "'a ndarray \<Rightarrow> nat \<Rightarrow> nat \<Rightarrow> error + 'a list list" where
  "reshape_F a n m =
     (if prod_list (shape a) \<noteq> n * m then Inl ValueError
      else Inr (map (\<lambda>r. map (\<lambda>c. ravel_F a ! (r + n * c)) [0..<m]) [0..<n]))"

text \<open>
  \<open>position\<close> is the array after \<^verbatim>\<open>atleast_2d\<close>, one row per time bin; \<open>edges * 2\<close> repeats
  the list of edge arrays. \<^verbatim>\<open>position.shape[1]\<close> is the length of a row; a list of
  rows without rows, also one that the selection has emptied, does not record it, and it
  is then taken to be the number of edge arrays, the one value with which
  \<^verbatim>\<open>np.histogramdd\<close> accepts the sample. The concatenated pairs
  have twice as many columns.
\<close>

definition n_columns :: "real list list \<Rightarrow> nat \<Rightarrow> nat" where
  "n_columns a d = (case a of [] \<Rightarrow> d | row # _ \<Rightarrow> length row)"

definition empirical_movement ::
  "real list list \<Rightarrow> real list list \<Rightarrow> bool list option \<Rightarrow> nat
     \<Rightarrow> (real \<times> real) option list option \<Rightarrow> error + matrix" where
  "empirical_movement position edges is_training replay_speed position_extent =
     (let is_training = (case is_training of None \<Rightarrow> replicate (length position) True
                         | Some m \<Rightarrow> m)
      in case boolean_index position is_training of Inl e \<Rightarrow> Inl e
      | Inr position \<Rightarrow>
     (case histogramdd (map2 (@) (tl position) (butlast position))
             (2 * n_columns position (length edges)) (edges @ edges) position_extent of
        Inl e \<Rightarrow> Inl e
      | Inr movement_bins \<Rightarrow>
     (let original_shape = shape movement_bins;
          n_position_dims = n_columns position (length edges);
          shape_2d = prod_list (take n_position_dims original_shape)
      in case reshape_F movement_bins shape_2d shape_2d of Inl e \<Rightarrow> Inl e
      | Inr reshaped \<Rightarrow>
     (case normalize_row_probability reshaped of Inl e \<Rightarrow> Inl e
      | Inr movement_bins \<Rightarrow> matrix_power movement_bins replay_speed))))"



section \<open>The random walk builders\<close>

text \<open>
  \<^verbatim>\<open>multivariate_normal(mean, cov).pdf(x)\<close> of scipy for a covariance given as a scalar
  (the same variance in every dimension) or as the vector of the variances. scipy refuses
  a covariance of the wrong length (ValueError). It then compares the variances, which are
  the eigenvalues of the covariance matrix, with the tolerance \<open>eps\<close>, which is
  \<^verbatim>\<open>1e6 * np.finfo('d').eps\<close> (a million times \<^verbatim>\<open>2 ** -52\<close>) times the largest absolute
  variance: a
  variance below \<open>- eps\<close> is a ValueError (not positive semidefinite), and one that is not
  above \<open>eps\<close> a LinAlgError (singular matrix).
\<close>

datatype covariance = Scalar real | Diagonal "real list"

definition variances :: "covariance \<Rightarrow> nat \<Rightarrow> error + real list" where
  "variances cov d =
     (let vs = (case cov of Scalar c \<Rightarrow> replicate d c | Diagonal cs \<Rightarrow> cs);
          eps = 1000000 * (1 / 2 ^ 52) * foldr max (map abs vs) 0
      in if length vs \<noteq> d then Inl ValueError
         else if \<not> list_all (\<lambda>c. - eps \<le> c) vs then Inl ValueError
         else if \<not> list_all (\<lambda>c. eps < c) vs then Inl LinAlgError
         else Inr vs)"

definition normal_pdf :: "real list \<Rightarrow> real list \<Rightarrow> real list \<Rightarrow> real" where
  "normal_pdf mean vs x =
     prod_list (map (\<lambda>(m, c, v). exp (- (v - m)\<^sup>2 / (2 * c)) / sqrt (2 * pi * c))
                  (zip mean (zip vs x)))"


text \<open>
  The list comprehension builds one frozen distribution per bin and evaluates it at all
  bin centres; \<^verbatim>\<open>np.stack(..., axis=1)\<close> puts the values for the bin \<open>j\<close> into the column
  \<open>j\<close>, and refuses an empty list with a ValueError. For a single bin centre \<^verbatim>\<open>pdf\<close>
  returns a number instead of an array of one value, which has no axis 1 to stack along:
  numpy raises AxisError, a ValueError.
\<close>

definition gaussian_kernel :: "real list list \<Rightarrow> covariance \<Rightarrow> error + matrix" where
  "gaussian_kernel place_bin_centers covariance =
     (case sequence (map (\<lambda>bin. variances covariance (length bin)) place_bin_centers) of
        Inl e \<Rightarrow> Inl e
      | Inr vss \<Rightarrow>
          if length place_bin_centers \<le> 1 then Inl ValueError
          else Inr (map (\<lambda>x. map (\<lambda>(bin, vs). normal_pdf bin vs x) (zip place_bin_centers vss))
                      place_bin_centers))"

definition random_walk :: "real list list \<Rightarrow> covariance \<Rightarrow> nat \<Rightarrow> error + matrix" where
  "random_walk place_bin_centers covariance replay_speed =
     (case gaussian_kernel place_bin_centers covariance of Inl e \<Rightarrow> Inl e
      | Inr transition_matrix \<Rightarrow>
     (case normalize_row_probability transition_matrix of Inl e \<Rightarrow> Inl e
      | Inr transition_matrix \<Rightarrow> matrix_power transition_matrix replay_speed))"

definition random_walk_with_absorbing_boundaries ::
  "real list list \<Rightarrow> covariance \<Rightarrow> bool ndarray \<Rightarrow> nat \<Rightarrow> error + matrix" where
  "random_walk_with_absorbing_boundaries place_bin_centers covariance is_track_interior
       replay_speed =
     (case gaussian_kernel place_bin_centers covariance of Inl e \<Rightarrow> Inl e
      | Inr transition_matrix \<Rightarrow>
     (let is_track_interior = ravel_F is_track_interior in
      if length is_track_interior \<noteq> length place_bin_centers then Inl IndexError
      else
        case normalize_row_probability
               (zero_columns (zero_rows transition_matrix is_track_interior) is_track_interior)
        of Inl e \<Rightarrow> Inl e
        | Inr transition_matrix \<Rightarrow> matrix_power transition_matrix replay_speed))"

section \<open>The classifier objects\<close>

text \<open>
  An attribute of a Python object that may not have been assigned yet is an optional field:
  \<open>None\<close> is the missing attribute, whose read raises AttributeError. The fitted attributes
  end in an underscore in the source and in a prime here. Objects of other libraries that
  the classifiers only pass on are opaque.
\<close>

typedecl track_graph
typedecl data_frame
typedecl fitted_density

type_synonym extent = "(real \<times> real) option list option"

datatype edge_spacing = Spacing real | Spacings "real list"

datatype estimator = NumbaKDE | Estimator string

definition attribute :: "'a option \<Rightarrow> error + 'a" where
  "attribute a = (case a of None \<Rightarrow> Inl AttributeError | Some v \<Rightarrow> Inr v)"

definition and_then :: "error + 'a \<Rightarrow> ('a \<Rightarrow> error + 'b) \<Rightarrow> error + 'b" where
  "and_then r f = (case r of Inl e \<Rightarrow> Inl e | Inr v \<Rightarrow> f v)"

record track_grid =
  grid_place_bin_centers :: "real list list"
  grid_place_bin_edges :: "real list list"
  grid_is_track_interior :: "bool ndarray"
  grid_distance_between_nodes :: "(nat \<times> nat \<times> real) list"
  grid_place_bin_center_ind_to_node :: "nat list"
  grid_place_bin_center_2D_position :: "real list list"
  grid_place_bin_edges_2D_position :: "real list list"
  grid_centers_shape :: "nat list"
  grid_edges :: "real list list"
  grid_track_graph :: track_graph
  grid_place_bin_center_ind_to_edge_id :: "nat list"
  grid_nodes_df :: data_frame

text \<open>
  The functions of the modules \<^verbatim>\<open>core\<close>, \<^verbatim>\<open>spiking_likelihood\<close> and
  \<^verbatim>\<open>multiunit_likelihood\<close> that the classifiers call are not among the sources. Those whose
  results no property here depends on are parameters of the model: any functions of these
  types, which may fail.

  \<^verbatim>\<open>predict\<close> hands the fitted arrays of the classifier to the two likelihood functions by
  reference, so a function that writes into an argument writes into the classifier. The
  fields \<open>spiking_likelihood_leaves\<close> and \<open>multiunit_likelihood_leaves\<close> give the arrays
  that were passed by reference as the call leaves them, whether it returns or raises.
\<close>

record helpers =
  get_grid :: "real list list \<Rightarrow> real \<Rightarrow> extent \<Rightarrow> bool
     \<Rightarrow> error + (real list list \<times> real list list \<times> real list list \<times> nat list)"
  get_track_interior :: "real list list \<Rightarrow> real list list \<Rightarrow> error + bool ndarray"
  get_track_grid :: "track_graph \<Rightarrow> nat option \<Rightarrow> (nat \<times> nat) list option
     \<Rightarrow> edge_spacing option \<Rightarrow> real \<Rightarrow> error + track_grid"
  estimate_place_fields :: "real list list \<Rightarrow> real list list \<Rightarrow> real list list \<Rightarrow> real \<Rightarrow> real
     \<Rightarrow> error + real list list"
  estimate_spiking_likelihood :: "real list list \<Rightarrow> real list list \<Rightarrow> bool ndarray
     \<Rightarrow> error + real list list"
  fit_multiunit_likelihood :: "real list list \<Rightarrow> real list list list \<Rightarrow> real list list
     \<Rightarrow> estimator \<Rightarrow> (string \<times> real list) list \<Rightarrow> estimator \<Rightarrow> (string \<times> real list) list
     \<Rightarrow> bool list
     \<Rightarrow> error + (fitted_density list \<times> real list list \<times> real list \<times> real list)"
  estimate_multiunit_likelihood :: "real list list list \<Rightarrow> real list list
     \<Rightarrow> fitted_density list \<Rightarrow> real list list \<Rightarrow> real list \<Rightarrow> real list \<Rightarrow> bool list
     \<Rightarrow> error + real list list"
  spiking_likelihood_leaves :: "real list list \<Rightarrow> real list list \<Rightarrow> bool ndarray
     \<Rightarrow> real list list \<times> bool ndarray"
  multiunit_likelihood_leaves :: "real list list list \<Rightarrow> real list list
     \<Rightarrow> fitted_density list \<Rightarrow> real list list \<Rightarrow> real list \<Rightarrow> real list \<Rightarrow> bool list
     \<Rightarrow> real list list \<times> fitted_density list \<times> real list list \<times> real list \<times> real list
         \<times> bool list"

record classifier_base =
  place_bin_size :: real
  replay_speed :: nat
  movement_var :: covariance
  position_range :: extent
  continuous_transition_types :: "string list list"
  discrete_transition_type :: string
  initial_conditions_type :: string
  discrete_transition_diag :: real
  infer_track_interior :: bool
  edges' :: "real list list option"
  place_bin_edges' :: "real list list option"
  place_bin_centers' :: "real list list option"
  centers_shape' :: "nat list option"
  place_bin_center_ind_to_node' :: "nat list option option"
  distance_between_nodes' :: "(nat \<times> nat \<times> real) list option option"
  is_track_interior' :: "bool ndarray option"
  place_bin_center_2D_position' :: "real list list option"
  place_bin_edges_2D_position' :: "real list list option"
  track_graph' :: "track_graph option"
  place_bin_center_ind_to_edge_id' :: "nat list option"
  nodes_df :: "data_frame option"
  initial_conditions' :: "real list list option"
  continuous_state_transition' :: "matrix list list option"
  discrete_state_transition' :: "matrix option"

record sorted_spikes_classifier = classifier_base +
  knot_spacing :: real
  spike_model_penalty :: real
  place_fields' :: "real list list option"

record clusterless_classifier = classifier_base +
  model :: estimator
  model_kwargs :: "(string \<times> real list) list"
  occupancy_model :: estimator
  occupancy_kwargs :: "(string \<times> real list) list"
  joint_pdf_models' :: "fitted_density list option"
  ground_process_intensities' :: "real list list option"
  occupancy' :: "real list option"
  mean_rates' :: "real list option"

definition DEFAULT_CLUSTERLESS_MODEL_KWARGS :: "(string \<times> real list) list" where
  "DEFAULT_CLUSTERLESS_MODEL_KWARGS = [(''bandwidth'', [24, 24, 24, 24, 6, 6])]"

definition DEFAULT_CONTINUOUS_TRANSITIONS :: "string list list" where
  "DEFAULT_CONTINUOUS_TRANSITIONS =
     [[''random_walk'', ''uniform'', ''identity''],
      [''uniform'', ''uniform'', ''uniform''],
      [''random_walk'', ''uniform'', ''identity'']]"

definition DISCRETE_DIAG :: real where
  "DISCRETE_DIAG = 1 - 1 / 100"

text \<open>The constructors, which assign the configuration and no fitted attribute.\<close>

definition ClassifierBase_init ::
  "real \<Rightarrow> nat \<Rightarrow> covariance \<Rightarrow> extent \<Rightarrow> string list list \<Rightarrow> string \<Rightarrow> string \<Rightarrow> real \<Rightarrow> bool
     \<Rightarrow> classifier_base" where
  "ClassifierBase_init place_bin_size_arg replay_speed_arg movement_var_arg position_range_arg
       continuous_transition_types_arg discrete_transition_type_arg
       initial_conditions_type_arg discrete_transition_diag_arg infer_track_interior_arg =
     \<lparr>place_bin_size = place_bin_size_arg,
      replay_speed = replay_speed_arg,
      movement_var = movement_var_arg,
      position_range = position_range_arg,
      continuous_transition_types = continuous_transition_types_arg,
      discrete_transition_type = discrete_transition_type_arg,
      initial_conditions_type = initial_conditions_type_arg,
      discrete_transition_diag = discrete_transition_diag_arg,
      infer_track_interior = infer_track_interior_arg,
      edges' = None, place_bin_edges' = None, place_bin_centers' = None,
      centers_shape' = None, place_bin_center_ind_to_node' = None,
      distance_between_nodes' = None, is_track_interior' = None,
      place_bin_center_2D_position' = None, place_bin_edges_2D_position' = None,
      track_graph' = None, place_bin_center_ind_to_edge_id' = None, nodes_df = None,
      initial_conditions' = None, continuous_state_transition' = None,
      discrete_state_transition' = None\<rparr>"

definition SortedSpikesClassifier_init ::
  "real \<Rightarrow> nat \<Rightarrow> covariance \<Rightarrow> extent \<Rightarrow> string list list \<Rightarrow> string \<Rightarrow> string \<Rightarrow> real \<Rightarrow> real
     \<Rightarrow> real \<Rightarrow> bool \<Rightarrow> sorted_spikes_classifier" where
  "SortedSpikesClassifier_init place_bin_size_arg replay_speed_arg movement_var_arg
       position_range_arg continuous_transition_types_arg discrete_transition_type_arg
       initial_conditions_type_arg knot_spacing_arg spike_model_penalty_arg
       discrete_transition_diag_arg infer_track_interior_arg =
     classifier_base.extend
       (ClassifierBase_init place_bin_size_arg replay_speed_arg movement_var_arg
          position_range_arg continuous_transition_types_arg discrete_transition_type_arg
          initial_conditions_type_arg discrete_transition_diag_arg infer_track_interior_arg)
       (sorted_spikes_classifier.fields knot_spacing_arg spike_model_penalty_arg None)"

definition ClusterlessClassifier_init ::
  "real \<Rightarrow> nat \<Rightarrow> covariance \<Rightarrow> extent \<Rightarrow> string list list \<Rightarrow> string \<Rightarrow> string \<Rightarrow> real \<Rightarrow> bool
     \<Rightarrow> estimator \<Rightarrow> (string \<times> real list) list \<Rightarrow> estimator option
     \<Rightarrow> (string \<times> real list) list \<Rightarrow> clusterless_classifier" where
  "ClusterlessClassifier_init place_bin_size_arg replay_speed_arg movement_var_arg
       position_range_arg continuous_transition_types_arg discrete_transition_type_arg
       initial_conditions_type_arg discrete_transition_diag_arg infer_track_interior_arg
       model_arg model_kwargs_arg occupancy_model_arg occupancy_kwargs_arg =
     classifier_base.extend
       (ClassifierBase_init place_bin_size_arg replay_speed_arg movement_var_arg
          position_range_arg continuous_transition_types_arg discrete_transition_type_arg
          initial_conditions_type_arg discrete_transition_diag_arg infer_track_interior_arg)
       (case occupancy_model_arg of
          None \<Rightarrow> clusterless_classifier.fields model_arg model_kwargs_arg model_arg
                    model_kwargs_arg None None None None
        | Some occupancy \<Rightarrow> clusterless_classifier.fields model_arg model_kwargs_arg occupancy
                    occupancy_kwargs_arg None None None None)"

text \<open>The two classifiers with every argument at its default.\<close>

definition SortedSpikesClassifier_default :: sorted_spikes_classifier where
  "SortedSpikesClassifier_default =
     SortedSpikesClassifier_init 2 40 (Scalar (5 / 100)) None DEFAULT_CONTINUOUS_TRANSITIONS
       ''strong_diagonal'' ''uniform_on_track'' 10 10 DISCRETE_DIAG True"

definition ClusterlessClassifier_default :: clusterless_classifier where
  "ClusterlessClassifier_default =
     ClusterlessClassifier_init 2 40 (Scalar (5 / 100)) None DEFAULT_CONTINUOUS_TRANSITIONS
       ''strong_diagonal'' ''uniform_on_track'' DISCRETE_DIAG True NumbaKDE
       DEFAULT_CLUSTERLESS_MODEL_KWARGS None []"

subsection \<open>The grid\<close>

definition ones_bool :: "nat list \<Rightarrow> bool ndarray" where
  "ones_bool ns = \<lparr>shape = ns, data = replicate (prod_list ns) True\<rparr>"

definition fit_place_grid ::
  "helpers \<Rightarrow> 'a classifier_base_scheme \<Rightarrow> real list list \<Rightarrow> track_graph option \<Rightarrow> nat option
     \<Rightarrow> (nat \<times> nat) list option \<Rightarrow> edge_spacing option \<Rightarrow> bool \<Rightarrow> bool ndarray option
     \<Rightarrow> error + 'a classifier_base_scheme" where
  "fit_place_grid h self position track_graph center_well_id edge_order edge_spacing
       infer_track_interior_arg is_track_interior =
     (case track_graph of
        None \<Rightarrow>
          and_then (get_grid h position (place_bin_size self) (position_range self)
                      (infer_track_interior self))
            (\<lambda>(edges, place_bin_edges, place_bin_centers, centers_shape).
               let self = self\<lparr>edges' := Some edges,
                                place_bin_edges' := Some place_bin_edges,
                                place_bin_centers' := Some place_bin_centers,
                                centers_shape' := Some centers_shape,
                                place_bin_center_ind_to_node' := Some None,
                                distance_between_nodes' := Some None,
                                infer_track_interior := infer_track_interior_arg\<rparr>
               in if is_track_interior = None \<and> infer_track_interior self then
                    and_then (get_track_interior h position edges)
                      (\<lambda>interior. Inr (self\<lparr>is_track_interior' := Some interior\<rparr>))
                  else if is_track_interior = None \<and> \<not> infer_track_interior self then
                    Inr (self\<lparr>is_track_interior' := Some (ones_bool centers_shape)\<rparr>)
                  else Inr self)
      | Some graph \<Rightarrow>
          and_then (get_track_grid h graph center_well_id edge_order edge_spacing
                      (place_bin_size self))
            (\<lambda>g. Inr (self\<lparr>place_bin_centers' := Some (grid_place_bin_centers g),
                             place_bin_edges' := Some (grid_place_bin_edges g),
                             is_track_interior' := Some (grid_is_track_interior g),
                             distance_between_nodes' :=
                               Some (Some (grid_distance_between_nodes g)),
                             place_bin_center_ind_to_node' :=
                               Some (Some (grid_place_bin_center_ind_to_node g)),
                             place_bin_center_2D_position' :=
                               Some (grid_place_bin_center_2D_position g),
                             place_bin_edges_2D_position' :=
                               Some (grid_place_bin_edges_2D_position g),
                             centers_shape' := Some (grid_centers_shape g),
                             edges' := Some (grid_edges g),
                             track_graph' := Some (grid_track_graph g),
                             place_bin_center_ind_to_edge_id' :=
                               Some (grid_place_bin_center_ind_to_edge_id g),
                             nodes_df := Some (grid_nodes_df g)\<rparr>)))"

subsection \<open>The initial conditions\<close>

text \<open>
  Modelled from the spec: \<^verbatim>\<open>uniform_on_track\<close> of the module \<^verbatim>\<open>initial_conditions\<close>, which is
  not among the sources. It returns the distribution with equal mass on every interior bin
  and zero elsewhere, summing to 1. The bins are those of the mask in the order of
  \<^verbatim>\<open>ravel(order='F')\<close>, which is how every function of the sources reads the mask. No such
  distribution exists without an interior bin: the quotient is then 0/0.
\<close>

definition uniform_on_track :: "real list list \<Rightarrow> bool ndarray \<Rightarrow> error + real list" where
  "uniform_on_track place_bin_centers is_track_interior =
     (let keep = ravel_F is_track_interior;
          n_interior = length (filter id keep)
      in if length keep \<noteq> length place_bin_centers then Inl IndexError
         else if n_interior = 0 then Inl NonFinite
         else Inr (map (\<lambda>k. if k then 1 / real n_interior else 0) keep))"

text \<open>
  \<^verbatim>\<open>np.stack([a] * n, axis=0)\<close> refuses \<open>n = 0\<close> with a ValueError. The trailing axis of
  length one that \<^verbatim>\<open>[..., np.newaxis]\<close> adds is left out of the model.
\<close>

definition fit_initial_conditions ::
  "'a classifier_base_scheme \<Rightarrow> error + 'a classifier_base_scheme" where
  "fit_initial_conditions self =
     (let n_states = length (continuous_transition_types self) in
      and_then (attribute (place_bin_centers' self)) (\<lambda>place_bin_centers.
      and_then (attribute (is_track_interior' self)) (\<lambda>is_track_interior.
      and_then (uniform_on_track place_bin_centers is_track_interior) (\<lambda>initial_conditions.
        if n_states = 0 then Inl ValueError
        else Inr (self\<lparr>initial_conditions' :=
                    Some (map (map (\<lambda>v. v / real n_states))
                            (replicate n_states initial_conditions))\<rparr>)))))"

subsection \<open>The transitions\<close>

text \<open>
  \<^verbatim>\<open>np.asarray(is_training).squeeze()\<close> drops every axis of length one: a mask of a single
  entry becomes a zero-dimensional array, any other mask stays as it is.
\<close>

datatype squeezed = ZeroDim bool | OneDim "bool list"

definition squeeze :: "bool list \<Rightarrow> squeezed" where
  "squeeze m = (case m of [b] \<Rightarrow> ZeroDim b | _ \<Rightarrow> OneDim m)"

type_synonym builder =
  "real list list \<Rightarrow> bool ndarray \<Rightarrow> real list list \<Rightarrow> real list list \<Rightarrow> squeezed \<Rightarrow> nat
     \<Rightarrow> extent \<Rightarrow> covariance \<Rightarrow> nat list option \<Rightarrow> (nat \<times> nat \<times> real) list option
     \<Rightarrow> error + matrix"

text \<open>
  Modelled from the spec: the entries of the registry \<^verbatim>\<open>CONTINUOUS_TRANSITIONS\<close> for the
  five builders of the sources. The module \<^verbatim>\<open>state_transition\<close> as given does not define
  the registry. The classifier calls an entry with the ten arguments of
  \<^verbatim>\<open>fit_continuous_state_transition\<close>, and each entry passes on the arguments that its
  builder takes.

  \<^verbatim>\<open>empirical_movement\<close> indexes the positions with the mask it is given. A
  zero-dimensional mask adds an axis instead of selecting rows, and \<^verbatim>\<open>np.histogramdd\<close>
  refuses the sample of three axes that results with a ValueError.
\<close>

definition empirical_movement_entry :: builder where
  "empirical_movement_entry place_bin_centers is_track_interior position edges is_training
       speed extent var ind_to_node distances =
     (case is_training of
        ZeroDim b \<Rightarrow> Inl ValueError
      | OneDim m \<Rightarrow> empirical_movement position edges (Some m) speed extent)"

definition random_walk_entry :: builder where
  "random_walk_entry place_bin_centers is_track_interior position edges is_training
       speed extent var ind_to_node distances =
     random_walk place_bin_centers var speed"

definition random_walk_with_absorbing_boundaries_entry :: builder where
  "random_walk_with_absorbing_boundaries_entry place_bin_centers is_track_interior position
       edges is_training speed extent var ind_to_node distances =
     random_walk_with_absorbing_boundaries place_bin_centers var is_track_interior speed"

definition uniform_entry :: builder where
  "uniform_entry place_bin_centers is_track_interior position edges is_training
       speed extent var ind_to_node distances =
     uniform_state_transition place_bin_centers is_track_interior"

definition identity_entry :: builder where
  "identity_entry place_bin_centers is_track_interior position edges is_training
       speed extent var ind_to_node distances =
     identity place_bin_centers is_track_interior"

text \<open>
  \<^verbatim>\<open>tensor[row_ind, column_ind] = value\<close> and \<^verbatim>\<open>a - b\<close> broadcast a square array to the
  size \<open>n\<close>: it fits when it has that size or is a single entry.
\<close>

definition broadcast_to :: "matrix \<Rightarrow> nat \<Rightarrow> matrix option" where
  "broadcast_to v n =
     (if square n v then Some v
      else case v of [[x]] \<Rightarrow> Some (replicate n (replicate n x)) | _ \<Rightarrow> None)"

text \<open>
  Modelled from the spec: the four difference types, which have no builder in the sources.
  The spec has them as ``difference combinations of the above base matrices'' that
  ``renormalize after subtraction'': the matrix of the first base builder minus that of
  the second, entry by entry (\<^verbatim>\<open>a - b\<close> of numpy, a ValueError for square arrays of two
  sizes neither of which is one), then \<^verbatim>\<open>_normalize_row_probability\<close>.
\<close>

definition minus :: "matrix \<Rightarrow> matrix \<Rightarrow> error + matrix" where
  "minus a b =
     (let n = (if length a = 1 then length b else length a) in
      case (broadcast_to a n, broadcast_to b n) of
        (Some a, Some b) \<Rightarrow> Inr (map2 (map2 (-)) a b)
      | _ \<Rightarrow> Inl ValueError)"

definition difference :: "builder \<Rightarrow> builder \<Rightarrow> builder" where
  "difference first second place_bin_centers is_track_interior position edges is_training
       speed extent var ind_to_node distances =
     and_then (first place_bin_centers is_track_interior position edges is_training
                 speed extent var ind_to_node distances) (\<lambda>a.
     and_then (second place_bin_centers is_track_interior position edges is_training
                 speed extent var ind_to_node distances) (\<lambda>b.
     and_then (minus a b) normalize_row_probability))"

text \<open>
  Modelled from the spec: the registry \<^verbatim>\<open>CONTINUOUS_TRANSITIONS\<close>, which maps a
  configuration string to a builder, a KeyError for any other string. The names are those
  of the spec.
\<close>

definition CONTINUOUS_TRANSITIONS :: "string \<Rightarrow> builder option" where
  "CONTINUOUS_TRANSITIONS name =
     (if name = ''empirical_movement'' then Some empirical_movement_entry
      else if name = ''random_walk'' then Some random_walk_entry
      else if name = ''random_walk_with_absorbing_boundaries'' then
        Some random_walk_with_absorbing_boundaries_entry
      else if name = ''uniform'' then Some uniform_entry
      else if name = ''identity'' then Some identity_entry
      else if name = ''uniform_minus_empirical'' then
        Some (difference uniform_entry empirical_movement_entry)
      else if name = ''uniform_minus_random_walk'' then
        Some (difference uniform_entry random_walk_entry)
      else if name = ''empirical_minus_identity'' then
        Some (difference empirical_movement_entry identity_entry)
      else if name = ''random_walk_minus_identity'' then
        Some (difference random_walk_entry identity_entry)
      else None)"

text \<open>
  Modelled from the spec: the registry \<^verbatim>\<open>DISCRETE_TRANSITIONS\<close>, called with the number of
  regimes and the diagonal value.
\<close>

definition DISCRETE_TRANSITIONS :: "string \<Rightarrow> (int \<Rightarrow> real \<Rightarrow> error + matrix) option" where
  "DISCRETE_TRANSITIONS name =
     (if name = ''strong_diagonal'' then Some strong_diagonal_discrete
      else if name = ''identity'' then Some (\<lambda>n_states diag. identity_discrete n_states)
      else if name = ''uniform'' then Some (\<lambda>n_states diag. uniform_discrete n_states)
      else None)"

text \<open>
  \<^verbatim>\<open>tensor[row_ind, column_ind] = value\<close>: IndexError for an index outside the tensor, and
  the value is broadcast to the \<open>n_bins\<close> by \<open>n_bins\<close> slice; a value that does not fit is
  a ValueError.
\<close>

definition assign_slice ::
  "matrix list list \<Rightarrow> nat \<Rightarrow> nat \<Rightarrow> nat \<Rightarrow> nat \<Rightarrow> matrix \<Rightarrow> error + matrix list list" where
  "assign_slice tensor n_states n_bins row_ind column_ind v =
     (if n_states \<le> row_ind \<or> n_states \<le> column_ind then Inl IndexError
      else case broadcast_to v n_bins of
             None \<Rightarrow> Inl ValueError
           | Some b \<Rightarrow> Inr (tensor[row_ind := (tensor ! row_ind)[column_ind := b]]))"

definition zeros :: "nat \<Rightarrow> nat \<Rightarrow> matrix" where
  "zeros n m = replicate n (replicate m 0)"

text \<open>
  The two loops of \<^verbatim>\<open>fit_continuous_state_transition\<close> visit the cells of the grid of type
  names row by row; the first failure ends the call. The registry is a parameter.
  \<open>build_cell\<close> is the right-hand side of the assignment in the loop body: the lookup of
  the builder, the reads of the attributes and the call.
\<close>

definition build_cell ::
  "(string \<Rightarrow> builder option) \<Rightarrow> 'a classifier_base_scheme \<Rightarrow> real list list
     \<Rightarrow> real list list \<Rightarrow> squeezed \<Rightarrow> string \<Rightarrow> error + matrix" where
  "build_cell registry self place_bin_centers position is_training transition_type =
     and_then (case registry transition_type of None \<Rightarrow> Inl KeyError
               | Some build \<Rightarrow> Inr build) (\<lambda>build.
     and_then (attribute (is_track_interior' self)) (\<lambda>is_track_interior.
     and_then (attribute (edges' self)) (\<lambda>edges.
     and_then (attribute (place_bin_center_ind_to_node' self)) (\<lambda>ind_to_node.
     and_then (attribute (distance_between_nodes' self)) (\<lambda>distances.
       build place_bin_centers is_track_interior position edges is_training
         (replay_speed self) (position_range self) (movement_var self)
         ind_to_node distances)))))"

definition cells :: "string list list \<Rightarrow> (nat \<times> nat \<times> string) list" where
  "cells types =
     concat (map (\<lambda>(row_ind, row).
                    map (\<lambda>(column_ind, transition_type).
                           (row_ind, column_ind, transition_type))
                      (enumerate 0 row))
               (enumerate 0 types))"

definition fit_continuous_state_transition ::
  "(string \<Rightarrow> builder option) \<Rightarrow> 'a classifier_base_scheme \<Rightarrow> real list list
     \<Rightarrow> bool list option \<Rightarrow> nat option \<Rightarrow> string list list
     \<Rightarrow> error + 'a classifier_base_scheme" where
  "fit_continuous_state_transition registry self position is_training replay_speed_arg
       continuous_transition_types_arg =
     (let is_training = (case is_training of None \<Rightarrow> replicate (length position) True
                         | Some m \<Rightarrow> m);
          is_training = squeeze is_training;
          self = (case replay_speed_arg of None \<Rightarrow> self
                  | Some s \<Rightarrow> self\<lparr>replay_speed := s\<rparr>);
          self = self\<lparr>continuous_transition_types := continuous_transition_types_arg\<rparr>
      in and_then (attribute (place_bin_centers' self)) (\<lambda>place_bin_centers.
         let n_bins = length place_bin_centers;
             n_states = length (continuous_transition_types self)
         in and_then
              (foldl (\<lambda>tensor (row_ind, column_ind, transition_type).
                        and_then tensor (\<lambda>tensor.
                        and_then (build_cell registry self place_bin_centers position
                                    is_training transition_type) (\<lambda>v.
                          assign_slice tensor n_states n_bins row_ind column_ind v)))
                 (Inr (replicate n_states (replicate n_states (zeros n_bins n_bins))))
                 (cells (continuous_transition_types self)))
              (\<lambda>tensor. Inr (self\<lparr>continuous_state_transition' := Some tensor\<rparr>))))"



definition fit_discrete_state_transition ::
  "(string \<Rightarrow> (int \<Rightarrow> real \<Rightarrow> error + matrix) option) \<Rightarrow> 'a classifier_base_scheme
     \<Rightarrow> real option \<Rightarrow> error + 'a classifier_base_scheme" where
  "fit_discrete_state_transition registry self discrete_transition_diag_arg =
     (let self = (case discrete_transition_diag_arg of None \<Rightarrow> self
                  | Some d \<Rightarrow> self\<lparr>discrete_transition_diag := d\<rparr>);
          n_states = length (continuous_transition_types self)
      in and_then (case registry (discrete_transition_type self) of None \<Rightarrow> Inl KeyError
                   | Some build \<Rightarrow> Inr build) (\<lambda>build.
         and_then (build (int n_states) (discrete_transition_diag self)) (\<lambda>t.
           Inr (self\<lparr>discrete_state_transition' := Some t\<rparr>))))"

subsection \<open>The observation models and fit\<close>

text \<open>
  \<^verbatim>\<open>fit_place_fields\<close> and \<^verbatim>\<open>fit_multiunits\<close> squeeze the mask as well and hand the
  selected rows to functions that are not among the sources. For a mask of a single entry
  the selection has an axis more; what those functions do with it the sources do not say,
  and the model hands them the selected rows.
\<close>

definition fit_place_fields ::
  "helpers \<Rightarrow> sorted_spikes_classifier \<Rightarrow> real list list \<Rightarrow> real list list \<Rightarrow> bool list option
     \<Rightarrow> error + sorted_spikes_classifier" where
  "fit_place_fields h self position spikes is_training =
     (let is_training = (case is_training of None \<Rightarrow> replicate (length position) True
                         | Some m \<Rightarrow> m)
      in and_then (boolean_index position is_training) (\<lambda>training_position.
         and_then (boolean_index spikes is_training) (\<lambda>training_spikes.
         and_then (attribute (place_bin_centers' self)) (\<lambda>place_bin_centers.
         and_then (estimate_place_fields h training_position training_spikes
                     place_bin_centers (spike_model_penalty self) (knot_spacing self))
           (\<lambda>fields. Inr (self\<lparr>place_fields' := Some fields\<rparr>))))))"

definition fit_multiunits ::
  "helpers \<Rightarrow> clusterless_classifier \<Rightarrow> real list list \<Rightarrow> real list list list
     \<Rightarrow> bool list option \<Rightarrow> error + clusterless_classifier" where
  "fit_multiunits h self position multiunits is_training =
     (let is_training = (case is_training of None \<Rightarrow> replicate (length position) True
                         | Some m \<Rightarrow> m)
      in and_then (boolean_index position is_training) (\<lambda>training_position.
         and_then (boolean_index multiunits is_training) (\<lambda>training_multiunits.
         and_then (attribute (place_bin_centers' self)) (\<lambda>place_bin_centers.
         and_then (attribute (is_track_interior' self)) (\<lambda>is_track_interior.
         and_then (fit_multiunit_likelihood h training_position training_multiunits
                     place_bin_centers (model self) (model_kwargs self)
                     (occupancy_model self) (occupancy_kwargs self)
                     (ravel_F is_track_interior))
           (\<lambda>(joint_pdf_models, ground_process_intensities, occupancy, mean_rates).
              Inr (self\<lparr>joint_pdf_models' := Some joint_pdf_models,
                         ground_process_intensities' := Some ground_process_intensities,
                         occupancy' := Some occupancy,
                         mean_rates' := Some mean_rates\<rparr>)))))))"

definition SortedSpikesClassifier_fit ::
  "helpers \<Rightarrow> sorted_spikes_classifier \<Rightarrow> real list list \<Rightarrow> real list list \<Rightarrow> bool list option
     \<Rightarrow> bool ndarray option \<Rightarrow> track_graph option \<Rightarrow> nat option \<Rightarrow> (nat \<times> nat) list option
     \<Rightarrow> edge_spacing option \<Rightarrow> error + sorted_spikes_classifier" where
  "SortedSpikesClassifier_fit h self position spikes is_training is_track_interior track_graph
       center_well_id edge_order edge_spacing =
     and_then (fit_place_grid h self position track_graph center_well_id edge_order
                 edge_spacing (infer_track_interior self) is_track_interior) (\<lambda>self.
     and_then (fit_initial_conditions self) (\<lambda>self.
     and_then (fit_continuous_state_transition CONTINUOUS_TRANSITIONS self position is_training
                 None (continuous_transition_types self)) (\<lambda>self.
     and_then (fit_discrete_state_transition DISCRETE_TRANSITIONS self None) (\<lambda>self.
     fit_place_fields h self position spikes is_training))))"

definition ClusterlessClassifier_fit ::
  "helpers \<Rightarrow> clusterless_classifier \<Rightarrow> real list list \<Rightarrow> real list list list
     \<Rightarrow> bool list option \<Rightarrow> bool ndarray option \<Rightarrow> track_graph option \<Rightarrow> nat option
     \<Rightarrow> (nat \<times> nat) list option \<Rightarrow> edge_spacing option \<Rightarrow> error + clusterless_classifier" where
  "ClusterlessClassifier_fit h self position multiunits is_training is_track_interior
       track_graph center_well_id edge_order edge_spacing =
     and_then (fit_place_grid h self position track_graph center_well_id edge_order
                 edge_spacing (infer_track_interior self) is_track_interior) (\<lambda>self.
     and_then (fit_initial_conditions self) (\<lambda>self.
     and_then (fit_continuous_state_transition CONTINUOUS_TRANSITIONS self position is_training
                 None (continuous_transition_types self)) (\<lambda>self.
     and_then (fit_discrete_state_transition DISCRETE_TRANSITIONS self None) (\<lambda>self.
     fit_multiunits h self position multiunits is_training))))"

section \<open>The inference core\<close>

text \<open>
  A distribution over the compound state is a list of rows, one per regime, of one entry
  per bin. The continuous transition tensor \<open>C\<close> holds at \<open>C ! s ! s'\<close> the matrix of the
  regime pair, and the discrete transition matrix \<open>D\<close> the entry \<open>D ! s ! s'\<close>.
\<close>

type_synonym joint = "real list list"

definition n_bins_of :: "joint \<Rightarrow> nat" where
  "n_bins_of p = (case p of [] \<Rightarrow> 0 | row # _ \<Rightarrow> length row)"

definition times_joint :: "joint \<Rightarrow> joint \<Rightarrow> joint" where
  "times_joint p q = map2 (map2 (*)) p q"

definition normalize_to_probability :: "joint \<Rightarrow> error + joint" where
  "normalize_to_probability p =
     (let total = sum_list (concat p) in
      if total = 0 then Inl NonFinite else Inr (map (map (\<lambda>v. v / total)) p))"

text \<open>
  Modelled from the spec: the predictive prior of the forward recursion,
  \<open>prior (s', x') = \<Sum> s x. posterior (s, x) * D[s, s'] * C[s, s'](x, x')\<close>.
\<close>

definition predictive_prior :: "matrix list list \<Rightarrow> matrix \<Rightarrow> joint \<Rightarrow> joint" where
  "predictive_prior C D posterior =
     (let n_states = length posterior; n_bins = n_bins_of posterior in
      map (\<lambda>s'. map (\<lambda>x'. (\<Sum>s\<leftarrow>[0..<n_states]. \<Sum>x\<leftarrow>[0..<n_bins].
                                posterior ! s ! x * D ! s ! s' * C ! s ! s' ! x ! x'))
                   [0..<n_bins])
          [0..<n_states])"

text \<open>
  Modelled from the spec: \<^verbatim>\<open>_causal_classify\<close> of the module \<^verbatim>\<open>core\<close>, which is not among
  the sources. The first posterior is the product of the initial conditions and the first
  likelihood, normalised to sum 1; every later posterior is the product of the predictive
  prior and the likelihood of its time step, normalised to sum 1 over all regimes and bins.
  A product without mass cannot be normalised.
\<close>

fun causal_steps ::
  "matrix list list \<Rightarrow> matrix \<Rightarrow> joint \<Rightarrow> joint list \<Rightarrow> error + joint list" where
  "causal_steps C D previous [] = Inr []"
| "causal_steps C D previous (likelihood # later) =
     and_then (normalize_to_probability
                 (times_joint (predictive_prior C D previous) likelihood)) (\<lambda>posterior.
     and_then (causal_steps C D posterior later) (\<lambda>rest. Inr (posterior # rest)))"

definition causal_classify ::
  "joint \<Rightarrow> matrix list list \<Rightarrow> matrix \<Rightarrow> joint list \<Rightarrow> error + joint list" where
  "causal_classify initial_conditions C D likelihood =
     (case likelihood of
        [] \<Rightarrow> Inr []
      | first # later \<Rightarrow>
          and_then (normalize_to_probability (times_joint initial_conditions first))
            (\<lambda>posterior.
          and_then (causal_steps C D posterior later) (\<lambda>rest. Inr (posterior # rest))))"

text \<open>
  Modelled from the spec: \<^verbatim>\<open>_acausal_classify\<close> of the module \<^verbatim>\<open>core\<close>, which is not among
  the sources. The terminal condition is that the last smoothed posterior is the last
  causal posterior. Working backward, the predictive prior is recomputed from the causal
  posterior of the time step and
  \<open>acausal (s, x) = causal (s, x) * \<Sum> s' x'. D[s, s'] * C[s, s'](x, x') * next (s', x') / prior (s', x')\<close>,
  where a term with a zero predictive prior contributes zero; the result of the step is
  normalised to sum 1 again when its sum is not 1.
\<close>

definition backward_weights ::
  "matrix list list \<Rightarrow> matrix \<Rightarrow> joint \<Rightarrow> joint \<Rightarrow> joint" where
  "backward_weights C D prior next_acausal =
     (let n_states = length prior; n_bins = n_bins_of prior in
      map (\<lambda>s. map (\<lambda>x. (\<Sum>s'\<leftarrow>[0..<n_states]. \<Sum>x'\<leftarrow>[0..<n_bins].
                              if prior ! s' ! x' = 0 then 0
                              else D ! s ! s' * C ! s ! s' ! x ! x' * next_acausal ! s' ! x'
                                     / prior ! s' ! x'))
                  [0..<n_bins])
          [0..<n_states])"

definition backward_step ::
  "matrix list list \<Rightarrow> matrix \<Rightarrow> joint \<Rightarrow> joint \<Rightarrow> error + joint" where
  "backward_step C D causal next_acausal =
     (let prior = predictive_prior C D causal;
          acausal = times_joint causal (backward_weights C D prior next_acausal)
      in if sum_list (concat acausal) = 1 then Inr acausal
         else normalize_to_probability acausal)"

fun acausal_classify ::
  "joint list \<Rightarrow> matrix list list \<Rightarrow> matrix \<Rightarrow> error + joint list" where
  "acausal_classify [] C D = Inr []"
| "acausal_classify [final] C D = Inr [final]"
| "acausal_classify (causal # later) C D =
     and_then (acausal_classify later C D) (\<lambda>smoothed.
     and_then (backward_step C D causal (hd smoothed)) (\<lambda>acausal.
       Inr (acausal # smoothed)))"

section \<open>Prediction\<close>

text \<open>
  The result of \<open>predict\<close> is a labelled dataset: named coordinates, and named variables
  with their dimension names and entries. An entry of a bin outside the track interior is
  absent.
\<close>

datatype coordinate = Numbers "real list" | Labels "string list"

record data_array =
  dims :: "string list"
  entries :: "real option ndarray"

record dataset =
  data_vars :: "(string \<times> data_array) list"
  coords :: "(string \<times> coordinate) list"

text \<open>
  Modelled from the spec: \<^verbatim>\<open>get_centers\<close> returns the midpoint of each consecutive pair of
  bin edges, and \<^verbatim>\<open>mask\<close> nulls the entries of a bins-indexed array where the interior flag
  is false and leaves the interior entries unchanged. Both belong to the module \<^verbatim>\<open>core\<close>,
  which is not among the sources.
\<close>

definition get_centers :: "real list \<Rightarrow> real list" where
  "get_centers edge = map2 (\<lambda>a b. (a + b) / 2) (butlast edge) (tl edge)"

definition mask_bins :: "real list \<Rightarrow> bool list \<Rightarrow> error + real option list" where
  "mask_bins v is_track_interior =
     (if length is_track_interior \<noteq> length v then Inl IndexError
      else Inr (map2 (\<lambda>x k. if k then Some x else None) v is_track_interior))"

text \<open>
  \<^verbatim>\<open>a.reshape(ns)\<close> keeps the row-major entries and needs as many cells as entries;
  \<^verbatim>\<open>a.swapaxes(-1, -2)\<close> transposes every block over the last two axes.
\<close>

definition reshape_C :: "'a ndarray \<Rightarrow> nat list \<Rightarrow> error + 'a ndarray" where
  "reshape_C a ns =
     (if prod_list ns \<noteq> length (data a) then Inl ValueError
      else Inr \<lparr>shape = ns, data = data a\<rparr>)"

fun chunks :: "nat \<Rightarrow> nat \<Rightarrow> 'a list \<Rightarrow> 'a list list" where
  "chunks 0 m xs = []"
| "chunks (Suc n) m xs = take m xs # chunks n m (drop m xs)"

definition transposed :: "'a list \<Rightarrow> nat \<Rightarrow> nat \<Rightarrow> 'a list" where
  "transposed block c0 c1 =
     concat (map (\<lambda>j. map (\<lambda>i. block ! (i * c1 + j)) [0..<c0]) [0..<c1])"

definition swapaxes_last :: "'a ndarray \<Rightarrow> error + 'a ndarray" where
  "swapaxes_last a =
     (case rev (shape a) of
        c1 # c0 # leading \<Rightarrow>
          Inr \<lparr>shape = rev leading @ [c1, c0],
               data = concat (map (\<lambda>block. transposed block c0 c1)
                                (chunks (prod_list leading) (c0 * c1) (data a)))\<rparr>
      | _ \<Rightarrow> Inl ValueError)"

text \<open>
  One variable of the dataset, from its array over time, regime and bin (the trailing axis
  of length one, which the source squeezes away, is not in the model). A nested list that
  is not an array of \<open>n_states\<close> rows per time step has no shape. The dimension names have
  to be as many as the axes.
\<close>

definition mask_time_step :: "joint \<Rightarrow> bool list \<Rightarrow> error + real option list list" where
  "mask_time_step at_time is_track_interior =
     sequence (map (\<lambda>row. mask_bins row is_track_interior) at_time)"

definition to_variable ::
  "joint list \<Rightarrow> bool list \<Rightarrow> nat \<Rightarrow> nat \<Rightarrow> nat \<Rightarrow> nat list \<Rightarrow> error + data_array" where
  "to_variable v is_track_interior n_position_dims n_time n_states centers_shape =
     (if \<not> list_all (\<lambda>at_time. length at_time = n_states) v then Inl ValueError
      else
        and_then (sequence (map (\<lambda>at_time. mask_time_step at_time is_track_interior) v))
          (\<lambda>masked.
        let a = \<lparr>shape = [length v, n_states, length is_track_interior],
                  data = concat (map concat masked)\<rparr>
        in if 1 < n_position_dims then
             and_then (reshape_C a ([n_time, n_states] @ centers_shape)) (\<lambda>reshaped.
             and_then (swapaxes_last reshaped) (\<lambda>swapped.
               if length (shape swapped) \<noteq> 4 then Inl ValueError
               else Inr \<lparr>dims = [''time'', ''state'', ''x_position'', ''y_position''],
                         entries = swapped\<rparr>))
           else Inr \<lparr>dims = [''time'', ''state'', ''position''], entries = a\<rparr>))"

text \<open>
  \<^verbatim>\<open>xr.Dataset(variables, coords)\<close> refuses (ValueError) a coordinate whose length is not
  the size of the axis it names.
\<close>

definition coordinate_length :: "coordinate \<Rightarrow> nat" where
  "coordinate_length c = (case c of Numbers xs \<Rightarrow> length xs | Labels ls \<Rightarrow> length ls)"

definition Dataset ::
  "(string \<times> data_array) list \<Rightarrow> (string \<times> coordinate) list \<Rightarrow> error + dataset" where
  "Dataset variables cs =
     (if list_all (\<lambda>(name, v).
           length (dims v) = length (shape (entries v)) \<and>
           list_all (\<lambda>(d, n). case map_of cs d of None \<Rightarrow> True
                                | Some c \<Rightarrow> coordinate_length c = n)
             (zip (dims v) (shape (entries v)))) variables
      then Inr \<lparr>data_vars = variables, coords = cs\<rparr>
      else Inl ValueError)"

text \<open>
  \<^verbatim>\<open>np.diag(np.asarray(types))\<close> is the diagonal of a rectangular grid of names; a ragged
  grid is no two-dimensional array and gives no coordinate (ValueError).
\<close>

definition state_labels :: "string list list \<Rightarrow> error + string list" where
  "state_labels types =
     (case types of
        [] \<Rightarrow> Inl ValueError
      | row # _ \<Rightarrow>
          if list_all (\<lambda>r. length r = length row) types
          then Inr (map (\<lambda>i. types ! i ! i) [0..<min (length types) (length row)])
          else Inl ValueError)"

definition item :: "'a list \<Rightarrow> nat \<Rightarrow> error + 'a" where
  "item xs i = (if i < length xs then Inr (xs ! i) else Inl IndexError)"

text \<open>
  The part of \<open>predict\<close> that the two classifiers share word for word, in its two
  halves: from the likelihood over time and bin to the dictionary of the arrays, and from
  the dictionary to the labelled dataset. \<^verbatim>\<open>np.stack\<close> refuses an empty list of arrays.
  The number of position dimensions is the number of columns of the bin centres; for a
  grid without bins it is taken to be the number of edge arrays.
\<close>

definition classify ::
  "'a classifier_base_scheme \<Rightarrow> nat \<Rightarrow> real list list \<Rightarrow> bool
     \<Rightarrow> error + (string \<times> joint list) list" where
  "classify self n_states likelihood is_compute_acausal =
     (if n_states = 0 then Inl ValueError
      else
        let likelihood = map (\<lambda>row. replicate n_states row) likelihood in
        and_then (attribute (initial_conditions' self)) (\<lambda>initial_conditions.
        and_then (attribute (continuous_state_transition' self)) (\<lambda>C.
        and_then (attribute (discrete_state_transition' self)) (\<lambda>D.
        and_then (causal_classify initial_conditions C D likelihood) (\<lambda>causal_posterior.
          if is_compute_acausal
          then and_then (acausal_classify causal_posterior C D)
                 (\<lambda>acausal_posterior.
                    Inr [(''likelihood'', likelihood),
                         (''causal_posterior'', causal_posterior),
                         (''acausal_posterior'', acausal_posterior)])
          else Inr [(''likelihood'', likelihood),
                    (''causal_posterior'', causal_posterior)])))))"

definition to_variables ::
  "(string \<times> joint list) list \<Rightarrow> bool list \<Rightarrow> nat \<Rightarrow> nat \<Rightarrow> nat \<Rightarrow> nat list
     \<Rightarrow> error + (string \<times> data_array) list" where
  "to_variables results is_track_interior n_position_dims n_time n_states centers_shape =
     sequence (map (\<lambda>(key, v).
                 and_then (to_variable v is_track_interior n_position_dims n_time n_states
                             centers_shape)
                   (\<lambda>variable. Inr (key, variable))) results)"

definition to_dataset ::
  "'a classifier_base_scheme \<Rightarrow> (string \<times> joint list) list \<Rightarrow> nat \<Rightarrow> nat
     \<Rightarrow> real list option \<Rightarrow> error + dataset" where
  "to_dataset self results n_states n_time time =
     (let time = (case time of None \<Rightarrow> map real [0..<n_time] | Some t \<Rightarrow> t) in
      and_then (attribute (place_bin_centers' self)) (\<lambda>place_bin_centers.
      and_then (attribute (edges' self)) (\<lambda>edges.
      let n_position_dims = n_columns place_bin_centers (length edges) in
      if 1 < n_position_dims then
        and_then (attribute (centers_shape' self)) (\<lambda>centers_shape.
        and_then (item edges 0) (\<lambda>x_edges.
        and_then (item edges 1) (\<lambda>y_edges.
        and_then (state_labels (continuous_transition_types self)) (\<lambda>labels.
        and_then (attribute (is_track_interior' self)) (\<lambda>is_track_interior.
        and_then (to_variables results (ravel_F is_track_interior) n_position_dims n_time
                    n_states centers_shape) (\<lambda>variables.
          Dataset variables
            [(''time'', Numbers time),
             (''x_position'', Numbers (get_centers x_edges)),
             (''y_position'', Numbers (get_centers y_edges)),
             (''state'', Labels labels)]))))))
      else
        and_then (item edges 0) (\<lambda>x_edges.
        and_then (state_labels (continuous_transition_types self)) (\<lambda>labels.
        and_then (attribute (is_track_interior' self)) (\<lambda>is_track_interior.
        and_then (to_variables results (ravel_F is_track_interior) n_position_dims n_time
                    n_states []) (\<lambda>variables.
          Dataset variables
            [(''time'', Numbers time),
             (''position'', Numbers (get_centers x_edges)),
             (''state'', Labels labels)])))))))"

definition assemble_results ::
  "'a classifier_base_scheme \<Rightarrow> nat \<Rightarrow> real list list \<Rightarrow> nat \<Rightarrow> real list option \<Rightarrow> bool
     \<Rightarrow> error + dataset" where
  "assemble_results self n_states likelihood n_time time is_compute_acausal =
     and_then (classify self n_states likelihood is_compute_acausal)
       (\<lambda>results. to_dataset self results n_states n_time time)"

text \<open>
  \<open>predict\<close> returns its result together with the classifier as the call leaves it. Its
  body assigns no attribute. It passes fitted arrays by reference to the likelihood
  function, so what that call leaves in them is what the classifier holds afterwards, and
  what the rest of the body reads. The number of regimes is the first axis of the fitted
  tensor, read before the call. \<^verbatim>\<open>np.asarray\<close> of the place fields shares their data.
\<close>

definition SortedSpikesClassifier_predict ::
  "helpers \<Rightarrow> sorted_spikes_classifier \<Rightarrow> real list list \<Rightarrow> real list option \<Rightarrow> bool
     \<Rightarrow> (error + dataset) \<times> sorted_spikes_classifier" where
  "SortedSpikesClassifier_predict h self spikes time is_compute_acausal =
     (case attribute (continuous_state_transition' self) of Inl e \<Rightarrow> (Inl e, self)
      | Inr tensor \<Rightarrow>
     (case attribute (place_fields' self) of Inl e \<Rightarrow> (Inl e, self)
      | Inr place_fields \<Rightarrow>
     (case attribute (is_track_interior' self) of Inl e \<Rightarrow> (Inl e, self)
      | Inr is_track_interior \<Rightarrow>
     (let n_states = length tensor;
          likelihood = estimate_spiking_likelihood h spikes place_fields is_track_interior;
          (place_fields, is_track_interior) =
             spiking_likelihood_leaves h spikes place_fields is_track_interior;
          self = self\<lparr>place_fields' := Some place_fields,
                       is_track_interior' := Some is_track_interior\<rparr>
      in (and_then likelihood (\<lambda>likelihood.
            assemble_results self n_states likelihood (length spikes) time
              is_compute_acausal),
          self)))))"

text \<open>
  \<^verbatim>\<open>a.ravel(order='F')\<close> copies the array unless its entries already lie in that order,
  which for the row-major arrays of the model is when at most one axis is longer than one
  entry; it then returns a view, and a write into the view is a write into the array.
  \<open>write_back a flat\<close> is the array \<open>a\<close> after its Fortran-order ravel was left as
  \<open>flat\<close>.
\<close>

definition ravel_F_is_view :: "nat list \<Rightarrow> bool" where
  "ravel_F_is_view ns = (length (filter (\<lambda>n. n \<noteq> 1) ns) \<le> 1)"

definition write_back :: "'a ndarray \<Rightarrow> 'a list \<Rightarrow> 'a ndarray" where
  "write_back a flat =
     (if ravel_F_is_view (shape a) then
        a\<lparr>data := foldl (\<lambda>d f. d[ravel_C (shape a) (unravel_F (shape a) f) := flat ! f])
                        (data a) [0..<prod_list (shape a)]\<rparr>
      else a)"

definition ClusterlessClassifier_predict ::
  "helpers \<Rightarrow> clusterless_classifier \<Rightarrow> real list list list \<Rightarrow> real list option \<Rightarrow> bool
     \<Rightarrow> (error + dataset) \<times> clusterless_classifier" where
  "ClusterlessClassifier_predict h self multiunits time is_compute_acausal =
     (case attribute (continuous_state_transition' self) of Inl e \<Rightarrow> (Inl e, self)
      | Inr tensor \<Rightarrow>
     (case attribute (place_bin_centers' self) of Inl e \<Rightarrow> (Inl e, self)
      | Inr place_bin_centers \<Rightarrow>
     (case attribute (joint_pdf_models' self) of Inl e \<Rightarrow> (Inl e, self)
      | Inr joint_pdf_models \<Rightarrow>
     (case attribute (ground_process_intensities' self) of Inl e \<Rightarrow> (Inl e, self)
      | Inr ground_process_intensities \<Rightarrow>
     (case attribute (occupancy' self) of Inl e \<Rightarrow> (Inl e, self)
      | Inr occupancy \<Rightarrow>
     (case attribute (mean_rates' self) of Inl e \<Rightarrow> (Inl e, self)
      | Inr mean_rates \<Rightarrow>
     (case attribute (is_track_interior' self) of Inl e \<Rightarrow> (Inl e, self)
      | Inr is_track_interior \<Rightarrow>
     (let n_states = length tensor;
          likelihood = estimate_multiunit_likelihood h multiunits place_bin_centers
                         joint_pdf_models ground_process_intensities occupancy mean_rates
                         (ravel_F is_track_interior);
          (place_bin_centers, joint_pdf_models, ground_process_intensities, occupancy,
           mean_rates, interior) =
             multiunit_likelihood_leaves h multiunits place_bin_centers joint_pdf_models
               ground_process_intensities occupancy mean_rates (ravel_F is_track_interior);
          self = self\<lparr>place_bin_centers' := Some place_bin_centers,
                       joint_pdf_models' := Some joint_pdf_models,
                       ground_process_intensities' := Some ground_process_intensities,
                       occupancy' := Some occupancy,
                       mean_rates' := Some mean_rates,
                       is_track_interior' := Some (write_back is_track_interior interior)\<rparr>
      in (and_then likelihood (\<lambda>likelihood.
            assemble_results self n_states likelihood (length multiunits) time
              is_compute_acausal),
          self)))))))))"

text \<open>The entries of a variable at its last index along the first axis.\<close>

definition final_time_slice :: "data_array \<Rightarrow> real option list" where
  "final_time_slice v =
     (case shape (entries v) of
        [] \<Rightarrow> data (entries v)
      | n # rest \<Rightarrow> drop ((n - 1) * prod_list rest) (data (entries v)))"

text \<open>
  A dataset whose smoothed posterior has the shape of its causal posterior and the same
  entries at the last time index.
\<close>

definition final_posteriors_agree :: "dataset \<Rightarrow> bool" where
  "final_posteriors_agree results =
     (case (map_of (data_vars results) ''causal_posterior'',
            map_of (data_vars results) ''acausal_posterior'') of
        (Some causal, Some acausal) \<Rightarrow>
          dims acausal = dims causal \<and>
          shape (entries acausal) = shape (entries causal) \<and>
          final_time_slice acausal = final_time_slice causal
      | _ \<Rightarrow> False)"

section \<open>Marginal probabilities of the regimes\<close>

text \<open>
  \<^verbatim>\<open>results.sum(names)\<close> of xarray: a ValueError when the dataset lacks one of the named
  dimensions; otherwise every variable is summed over those of the named dimensions that
  it has, an absent entry counting as zero, a variable that has none of them is left as it
  is, and the coordinates of the summed dimensions are dropped.
\<close>

definition dataset_dims :: "dataset \<Rightarrow> string list" where
  "dataset_dims ds = concat (map (\<lambda>(name, v). dims v) (data_vars ds)) @ map fst (coords ds)"

definition select_axes :: "bool list \<Rightarrow> 'a list \<Rightarrow> 'a list" where
  "select_axes kept xs = map fst (filter snd (zip xs kept))"

definition sum_over :: "string list \<Rightarrow> data_array \<Rightarrow> data_array" where
  "sum_over names v =
     (let kept = map (\<lambda>d. d \<notin> set names) (dims v);
          old_shape = shape (entries v);
          new_shape = select_axes kept old_shape
      in if list_all id kept then v
         else
           \<lparr>dims = select_axes kept (dims v),
            entries =
              \<lparr>shape = new_shape,
               data = map (\<lambda>c. Some (\<Sum>k\<leftarrow>[0..<prod_list old_shape].
                                        if select_axes kept (unravel_C old_shape k) =
                                             unravel_C new_shape c
                                        then (case data (entries v) ! k of None \<Rightarrow> 0
                                              | Some x \<Rightarrow> x)
                                        else 0))
                        [0..<prod_list new_shape]\<rparr>\<rparr>)"

definition dataset_sum :: "dataset \<Rightarrow> string list \<Rightarrow> error + dataset" where
  "dataset_sum ds names =
     (if \<not> list_all (\<lambda>d. d \<in> set (dataset_dims ds)) names then Inl ValueError
      else Inr \<lparr>data_vars = map (\<lambda>(name, v). (name, sum_over names v)) (data_vars ds),
                coords = filter (\<lambda>(name, c). name \<notin> set names) (coords ds)\<rparr>)"

definition predict_proba :: "dataset \<Rightarrow> error + dataset" where
  "predict_proba results =
     (case dataset_sum results [''x_position'', ''y_position''] of
        Inr summed \<Rightarrow> Inr summed
      | Inl ValueError \<Rightarrow> dataset_sum results [''position'']
      | Inl e \<Rightarrow> Inl e)"

text \<open>
  A stand-in for the functions that are not among the sources, to run the model on concrete
  inputs: a fixed grid of the two bins between the edges 0, 1 and 2, the track interior as
  the bins that the position visits, no place fields and a flat likelihood, which writes
  into none of its arguments.
\<close>

definition example_helpers :: helpers where
  "example_helpers =
     \<lparr>get_grid = (\<lambda>position size extent infer.
         Inr ([[0, 1, 2]], [[0], [1], [2]], [[1/2], [3/2]], [2])),
      get_track_interior = (\<lambda>position edges.
         and_then (histogramdd position (n_columns position (length edges)) edges None)
           (\<lambda>counts. Inr \<lparr>shape = shape counts, data = map (\<lambda>c. 0 < c) (data counts)\<rparr>)),
      get_track_grid = (\<lambda>graph center_well_id edge_order spacing size. Inl ValueError),
      estimate_place_fields = (\<lambda>position spikes centers penalty spacing. Inr []),
      estimate_spiking_likelihood = (\<lambda>spikes fields interior.
         Inr (map (\<lambda>row. replicate (prod_list (shape interior)) 1) spikes)),
      fit_multiunit_likelihood = (\<lambda>position multiunits centers m kw om okw interior.
         Inr ([], [], [], [])),
      estimate_multiunit_likelihood = (\<lambda>multiunits centers joint intensities occupancy rates
           interior.
         Inr (map (\<lambda>row. replicate (length interior) 1) multiunits)),
      spiking_likelihood_leaves = (\<lambda>spikes fields interior. (fields, interior)),
      multiunit_likelihood_leaves = (\<lambda>multiunits centers joint intensities occupancy rates
           interior.
         (centers, joint, intensities, occupancy, rates, interior))\<rparr>"

section \<open>Properties of the discrete builders\<close>

lemma sum_list_one_hot:
  fixes a b :: real
  assumes "i < n"
  shows "(\<Sum>j\<leftarrow>[0..<n]. if i = j then a else b) = a + real (n - 1) * b"
proof -
  have "(\<Sum>j\<leftarrow>[0..<n]. if i = j then a else b) = (\<Sum>j\<in>{0..<n}. if i = j then a else b)"
    by (simp add: interv_sum_list_conv_sum_set_nat)
  also have "\<dots> = (if i = i then a else b) + (\<Sum>j\<in>{0..<n} - {i}. if i = j then a else b)"
    using assms by (intro sum.remove) auto
  also have "(\<Sum>j\<in>{0..<n} - {i}. if i = j then a else b) = (\<Sum>j\<in>{0..<n} - {i}. b)"
    by (intro sum.cong) auto
  also have "\<dots> = real (n - 1) * b"
    using assms by simp
  finally show ?thesis by simp
qed

lemma strong_diagonal_rows:
  assumes "0 \<le> n" and "n \<noteq> 1"
  shows "strong_diagonal_discrete n diag =
           Inr (map (\<lambda>i. map (\<lambda>j. if i = j then diag else (1 - diag) / real_of_int (n - 1))
                  [0..<nat n]) [0..<nat n])"
  using assms
  by (auto simp: strong_diagonal_discrete_def Let_def assign_where_def times_scalar_def
      invert_def identity_real_def identity_bool_def map2_map_map intro!: nth_equalityI)

text \<open>
  Claim C6. For every integer \<open>n \<ge> 2\<close> and every \<open>diag\<close> in the open interval (0,1),
  \<open>strong_diagonal_discrete n diag\<close> returns an n-by-n matrix whose diagonal entries all
  equal \<open>diag\<close>, whose off-diagonal entries all equal \<open>(1 - diag) / (n - 1)\<close>, and whose
  every row sums to 1.
\<close>

theorem strong_diagonal_discrete_spec:
  assumes "2 \<le> n" and "0 < diag" and "diag < 1"
  shows "\<exists>m. strong_diagonal_discrete n diag = Inr m \<and> length m = nat n \<and>
           (\<forall>i < nat n. length (m ! i) = nat n \<and> sum_list (m ! i) = 1 \<and>
              (\<forall>j < nat n. m ! i ! j =
                 (if i = j then diag else (1 - diag) / (real_of_int n - 1))))"
proof -
  let ?c = "(1 - diag) / real_of_int (n - 1)"
  let ?m = "map (\<lambda>i. map (\<lambda>j. if i = j then diag else ?c) [0..<nat n]) [0..<nat n]"
  have eq: "strong_diagonal_discrete n diag = Inr ?m"
    using assms(1) by (intro strong_diagonal_rows) auto
  have rows: "sum_list (?m ! i) = 1" if "i < nat n" for i
  proof -
    have "sum_list (?m ! i) = diag + real (nat n - 1) * ?c"
      using that by (simp add: sum_list_one_hot)
    also have "real (nat n - 1) = real_of_int (n - 1)"
      using assms(1) by (simp add: of_nat_diff)
    also have "diag + real_of_int (n - 1) * ?c = 1"
      using assms(1) by simp
    finally show ?thesis .
  qed
  show ?thesis
    unfolding eq using rows by (intro exI[of _ ?m]) simp
qed

theorem strong_diagonal_discrete_spec_witness:
  "strong_diagonal_discrete 3 (1/2) = Inr [[1/2, 1/4, 1/4], [1/4, 1/2, 1/4], [1/4, 1/4, 1/2]]"
proof -
  have "\<exists>m. strong_diagonal_discrete 3 (1/2) = Inr m \<and> length m = nat 3 \<and>
           (\<forall>i < nat 3. length (m ! i) = nat 3 \<and> sum_list (m ! i) = 1 \<and>
              (\<forall>j < nat 3. m ! i ! j =
                 (if i = j then 1/2 else (1 - 1/2) / (real_of_int 3 - 1))))"
    by (rule strong_diagonal_discrete_spec) simp_all
  then show ?thesis
    by (simp add: strong_diagonal_discrete_def Let_def assign_where_def times_scalar_def
      invert_def identity_real_def identity_bool_def upt_rec)
qed

section \<open>Row normalisation\<close>

lemma sequence_map_Inr:
  "(\<And>x. x \<in> set xs \<Longrightarrow> f x = Inr (g x)) \<Longrightarrow> sequence (map f xs) = Inr (map g xs)"
  by (induction xs) auto

lemma sequence_Inr_length: "sequence xs = Inr ys \<Longrightarrow> length ys = length xs"
  by (induction xs arbitrary: ys) (auto split: sum.splits)

lemma sequence_Inr_nth:
  "sequence xs = Inr ys \<Longrightarrow> i < length xs \<Longrightarrow> xs ! i = Inr (ys ! i)"
proof (induction xs arbitrary: ys i)
  case Nil
  then show ?case by simp
next
  case (Cons x xs)
  then show ?case by (cases i) (auto split: sum.splits)
qed


lemma sum_list_divide_const:
  fixes c :: real
  shows "(\<Sum>v\<leftarrow>row. v / c) = sum_list row / c"
  by (induction row) (simp_all add: add_divide_distrib)


lemma sum_list_indicator:
  "(\<Sum>b\<leftarrow>keep. if b then (1::real) else 0) = real (length (filter id keep))"
  by (induction keep) simp_all

lemma normalize_row_nonneg_ok:
  assumes "\<forall>v \<in> set row. 0 \<le> v"
  shows "normalize_row row =
           Inr (map (\<lambda>v. if sum_list row = 0 then 0 else v / sum_list row) row)"
proof (cases "sum_list row = 0")
  case True
  with assms have "\<forall>v \<in> set row. v = 0"
    by (simp add: sum_list_nonneg_eq_0_iff)
  then have "list_all (\<lambda>v. v = 0) row" by (simp add: list_all_iff)
  with True show ?thesis by (simp add: normalize_row_def)
next
  case False
  then show ?thesis by (simp add: normalize_row_def)
qed

lemma map2_replicate_left:
  "length ys = n \<Longrightarrow> map2 f (replicate n x) ys = map (f x) ys"
  by (induction ys arbitrary: n) auto

lemma masked_ones:
  assumes "length keep = n"
  shows "zero_columns (zero_rows (ones n n) keep) keep =
           map (\<lambda>k. map (\<lambda>k'. if k \<and> k' then 1 else 0) keep) keep"
proof -
  have "zero_rows (ones n n) keep =
          map (\<lambda>k. if k then replicate n 1 else replicate n 0) keep"
    using assms by (simp add: zero_rows_def ones_def map2_replicate_left)
  moreover have "map2 (\<lambda>v k'. if k' then v else 0) (replicate n (c::real)) keep =
          map (\<lambda>k'. if k' then c else 0) keep" for c
    using assms by (simp add: map2_replicate_left)
  ultimately show ?thesis
    by (simp add: zero_columns_def o_def if_distrib[of "\<lambda>r. map2 _ r keep"] cong: if_cong)
qed

lemma uniform_state_transition_eq:
  assumes "length (ravel_F is_track_interior) = length place_bin_centers"
  shows "uniform_state_transition place_bin_centers is_track_interior =
           Inr (let keep = ravel_F is_track_interior in
                map (\<lambda>k. map (\<lambda>k'. if k \<and> k' then 1 / real (length (filter id keep)) else 0)
                       keep) keep)"
proof -
  let ?keep = "ravel_F is_track_interior"
  let ?cnt = "real (length (filter id ?keep))"
  let ?row = "\<lambda>k. map (\<lambda>k'. if k \<and> k' then (1::real) else 0) ?keep"
  have sum: "sum_list (?row k) = (if k then ?cnt else 0)" for k
    by (cases k) (simp_all add: sum_list_indicator)
  have row: "normalize_row (?row k) =
               Inr (map (\<lambda>k'. if k \<and> k' then 1 / ?cnt else 0) ?keep)" if "k \<in> set ?keep" for k
  proof -
    have "normalize_row (?row k) =
            Inr (map (\<lambda>v. if sum_list (?row k) = 0 then 0 else v / sum_list (?row k)) (?row k))"
      by (intro normalize_row_nonneg_ok) auto
    also have "map (\<lambda>v. if sum_list (?row k) = 0 then 0 else v / sum_list (?row k)) (?row k) =
                 map (\<lambda>k'. if k \<and> k' then 1 / ?cnt else 0) ?keep"
      unfolding sum by (cases k) (auto simp: o_def)
    finally show ?thesis .
  qed
  have "uniform_state_transition place_bin_centers is_track_interior =
          sequence (map (\<lambda>k. normalize_row (?row k)) ?keep)"
    using assms masked_ones[of ?keep "length place_bin_centers"]
    by (simp add: uniform_state_transition_def Let_def normalize_row_probability_def o_def)
  also have "\<dots> = Inr (map (\<lambda>k. map (\<lambda>k'. if k \<and> k' then 1 / ?cnt else 0) ?keep) ?keep)"
    by (intro sequence_map_Inr row)
  finally show ?thesis by (simp add: Let_def)
qed


section \<open>Matrix powers and row sums\<close>

lemma squareD: "square n a \<Longrightarrow> i < n \<Longrightarrow> length (a ! i) = n"
  by (simp add: square_def list_all_length)

lemma square_length: "square n a \<Longrightarrow> length a = n"
  by (simp add: square_def)

lemma sum_list_map2_nth:
  fixes xs ys :: "real list"
  assumes "length xs = n" "length ys = n"
  shows "sum_list (map2 (*) xs ys) = (\<Sum>k<n. xs ! k * ys ! k)"
proof -
  have "sum_list (map2 (*) xs ys) = (\<Sum>k = 0..<n. map2 (*) xs ys ! k)"
    using assms by (simp add: sum_list_sum_nth)
  also have "\<dots> = (\<Sum>k = 0..<n. xs ! k * ys ! k)"
    using assms by (intro sum.cong) auto
  finally show ?thesis by (simp add: atLeast0LessThan)
qed

lemma sum_list_nth_sum:
  fixes xs :: "real list"
  shows "length xs = n \<Longrightarrow> sum_list xs = (\<Sum>k<n. xs ! k)"
  by (simp add: sum_list_sum_nth atLeast0LessThan)

lemma dot_nth:
  assumes "square n a" "square n b" "i < n" "j < n"
  shows "dot a b ! i ! j = (\<Sum>k<n. a ! i ! k * b ! k ! j)"
proof -
  have "dot a b ! i ! j = sum_list (map2 (*) (a ! i) (map (\<lambda>brow. brow ! j) b))"
    using assms by (simp add: dot_def square_def)
  also have "\<dots> = (\<Sum>k<n. a ! i ! k * map (\<lambda>brow. brow ! j) b ! k)"
    using assms by (intro sum_list_map2_nth) (simp_all add: squareD square_length)
  also have "\<dots> = (\<Sum>k<n. a ! i ! k * b ! k ! j)"
    using assms by (intro sum.cong) (simp_all add: square_length)
  finally show ?thesis .
qed

lemma square_dot: "square n a \<Longrightarrow> square n b \<Longrightarrow> square n (dot a b)"
  by (simp add: square_def dot_def list_all_iff)

lemma square_identity: "square n (identity_real n)"
  by (simp add: square_def identity_real_def list_all_iff)

lemma square_power_loop: "square n a \<Longrightarrow> square n (power_loop a p)"
  by (induction p) (simp_all add: square_dot square_identity square_length)

lemma identity_nth: "i < n \<Longrightarrow> j < n \<Longrightarrow> identity_real n ! i ! j = (if i = j then 1 else 0)"
  by (simp add: identity_real_def)

lemma matrix_eqI:
  assumes "square n a" "square n b" "\<And>i j. i < n \<Longrightarrow> j < n \<Longrightarrow> a ! i ! j = b ! i ! j"
  shows "a = b"
  using assms by (auto simp: square_def list_all_length intro!: nth_equalityI)

lemma dot_identity:
  assumes "square n a"
  shows "dot a (identity_real n) = a"
proof (rule matrix_eqI[of n])
  fix i j assume ij: "i < n" "j < n"
  have "dot a (identity_real n) ! i ! j = (\<Sum>k<n. a ! i ! k * identity_real n ! k ! j)"
    using assms ij by (intro dot_nth square_identity)
  also have "\<dots> = (\<Sum>k<n. if k = j then a ! i ! k else 0)"
    using ij by (intro sum.cong) (simp_all add: identity_nth)
  also have "\<dots> = a ! i ! j"
    using ij by simp
  finally show "dot a (identity_real n) ! i ! j = a ! i ! j" .
qed (simp_all add: assms square_dot square_identity)

lemma power_loop_one: "square n a \<Longrightarrow> power_loop a (Suc 0) = a"
  by (simp add: dot_identity square_length)

lemma row_sum_dot:
  assumes "square n a" "square n b" "i < n"
  shows "sum_list (dot a b ! i) = (\<Sum>k<n. a ! i ! k * sum_list (b ! k))"
proof -
  have "sum_list (dot a b ! i) = (\<Sum>j<n. dot a b ! i ! j)"
    using assms by (intro sum_list_nth_sum squareD[OF square_dot])
  also have "\<dots> = (\<Sum>j<n. \<Sum>k<n. a ! i ! k * b ! k ! j)"
    using assms by (intro sum.cong refl dot_nth) simp_all
  also have "\<dots> = (\<Sum>k<n. \<Sum>j<n. a ! i ! k * b ! k ! j)"
    by (rule sum.swap)
  also have "\<dots> = (\<Sum>k<n. a ! i ! k * (\<Sum>j<n. b ! k ! j))"
    by (simp add: sum_distrib_left)
  also have "\<dots> = (\<Sum>k<n. a ! i ! k * sum_list (b ! k))"
    using assms by (intro sum.cong refl) (simp add: sum_list_nth_sum[OF squareD])
  finally show ?thesis .
qed

text \<open>A zero row of the left factor is a zero row of the product, so of every power.\<close>

lemma zero_row_dot:
  assumes "square n a" "square n b" "i < n" "j < n" "\<forall>k<n. a ! i ! k = 0"
  shows "dot a b ! i ! j = 0"
  using assms by (simp add: dot_nth)

lemma zero_row_power:
  assumes "square n a" "i < n" "j < n" "\<forall>k<n. a ! i ! k = 0"
  shows "power_loop a (Suc p) ! i ! j = 0"
  using assms by (simp add: zero_row_dot[OF _ square_power_loop])

lemma nonneg_dot:
  assumes "square n a" "square n b" "i < n" "j < n"
    "\<forall>i<n. \<forall>j<n. 0 \<le> a ! i ! j" "\<forall>i<n. \<forall>j<n. 0 \<le> b ! i ! j"
  shows "0 \<le> dot a b ! i ! j"
proof -
  have "0 \<le> (\<Sum>k<n. a ! i ! k * b ! k ! j)"
    using assms by (intro sum_nonneg mult_nonneg_nonneg) simp_all
  then show ?thesis using assms by (simp add: dot_nth)
qed

lemma nonneg_power:
  assumes "square n a" "\<forall>i<n. \<forall>j<n. 0 \<le> a ! i ! j"
  shows "\<forall>i<n. \<forall>j<n. 0 \<le> power_loop a p ! i ! j"
proof (induction p)
  case 0
  show ?case using assms by (simp add: identity_nth square_length)
next
  case (Suc p)
  show ?case using assms Suc
    by (auto intro!: nonneg_dot[of n] square_power_loop)
qed

lemma row_sum_le_dot:
  assumes "square n a" "square n b" "i < n"
    "\<forall>j<n. 0 \<le> a ! i ! j" "sum_list (a ! i) \<le> 1"
    "\<forall>k<n. sum_list (b ! k) \<le> 1"
  shows "sum_list (dot a b ! i) \<le> 1"
proof -
  have "sum_list (dot a b ! i) = (\<Sum>k<n. a ! i ! k * sum_list (b ! k))"
    using assms by (intro row_sum_dot)
  also have "\<dots> \<le> (\<Sum>k<n. a ! i ! k * 1)"
    using assms by (intro sum_mono mult_left_mono) simp_all
  also have "\<dots> = sum_list (a ! i)"
    using assms by (simp add: sum_list_nth_sum[OF squareD])
  finally show ?thesis using assms by simp
qed

lemma row_sum_le_power:
  assumes "square n a" "\<forall>i<n. \<forall>j<n. 0 \<le> a ! i ! j" "\<forall>i<n. sum_list (a ! i) \<le> 1"
  shows "\<forall>i<n. sum_list (power_loop a p ! i) \<le> 1"
proof (induction p)
  case 0
  have "sum_list (identity_real n ! i) = 1" if "i < n" for i
    using that by (simp add: identity_real_def sum_list_one_hot)
  then show ?case using assms by (simp add: square_length)
next
  case (Suc p)
  show ?case using assms Suc
    by (auto intro!: row_sum_le_dot[of n] square_power_loop)
qed

text \<open>
  When every column that belongs to a zero row is zero too, the rows of the powers keep
  their sums.
\<close>

lemma row_sum_power_closed:
  assumes sq: "square n a"
    and rows: "\<forall>i<n. sum_list (a ! i) = 1 \<or> (\<forall>j<n. a ! i ! j = 0)"
    and closed: "\<forall>k<n. (\<forall>j<n. a ! k ! j = 0) \<longrightarrow> (\<forall>i<n. a ! i ! k = 0)"
    and i: "i < n"
  shows "sum_list (power_loop a (Suc p) ! i) = sum_list (a ! i)"
  using i
proof (induction p arbitrary: i)
  case 0
  then show ?case using sq by (simp add: dot_identity square_length)
next
  case (Suc p)
  have "sum_list (power_loop a (Suc (Suc p)) ! i) =
          (\<Sum>k<n. a ! i ! k * sum_list (power_loop a (Suc p) ! k))"
    using sq Suc.prems row_sum_dot[OF sq square_power_loop[OF sq], of i "Suc p"] by simp
  also have "\<dots> = (\<Sum>k<n. a ! i ! k * sum_list (a ! k))"
    using Suc.IH by (intro sum.cong refl) simp
  also have "\<dots> = (\<Sum>k<n. a ! i ! k)"
  proof (intro sum.cong refl)
    fix k assume "k \<in> {..<n}"
    then have k: "k < n" by simp
    show "a ! i ! k * sum_list (a ! k) = a ! i ! k"
    proof (cases "sum_list (a ! k) = 1")
      case True
      then show ?thesis by simp
    next
      case False
      with rows k have "\<forall>j<n. a ! k ! j = 0" by blast
      with closed k Suc.prems have "a ! i ! k = 0" by blast
      then show ?thesis by simp
    qed
  qed
  also have "\<dots> = sum_list (a ! i)"
    using sq Suc.prems by (simp add: sum_list_nth_sum[OF squareD])
  finally show ?case .
qed

section \<open>Sequencing of fallible steps\<close>

lemma and_then_simps [simp]:
  "and_then (Inl e) f = Inl e"
  "and_then (Inr v) f = f v"
  by (simp_all add: and_then_def)

lemma attribute_simps [simp]:
  "attribute None = Inl AttributeError"
  "attribute (Some v) = Inr v"
  by (simp_all add: attribute_def)

lemma and_then_Inr_iff:
  "and_then r f = Inr y \<longleftrightarrow> (\<exists>v. r = Inr v \<and> f v = Inr y)"
  by (cases r) simp_all



lemma SortedSpikesClassifier_predict_Inr:
  assumes "fst (SortedSpikesClassifier_predict h self spikes time flag) = Inr results"
  shows "\<exists>(after :: sorted_spikes_classifier) n_states fields interior likelihood.
           estimate_spiking_likelihood h spikes fields interior = Inr likelihood \<and>
           assemble_results after n_states likelihood (length spikes) time flag = Inr results"
  using assms
  by (auto simp: SortedSpikesClassifier_predict_def Let_def and_then_Inr_iff
           split: sum.splits prod.splits) blast

lemma ClusterlessClassifier_predict_Inr:
  assumes "fst (ClusterlessClassifier_predict h self multiunits time flag) = Inr results"
  shows "\<exists>(after :: clusterless_classifier) n_states centers models intensities
             occupancy rates interior likelihood.
           estimate_multiunit_likelihood h multiunits centers models intensities occupancy
             rates interior = Inr likelihood \<and>
           assemble_results after n_states likelihood (length multiunits) time flag =
             Inr results"
  using assms
  by (auto simp: ClusterlessClassifier_predict_def Let_def and_then_Inr_iff
           split: sum.splits prod.splits) blast
section \<open>The uniform builder\<close>

text \<open>
  Claim C7. For every set of bin centers and every interior mask with \<open>k \<ge> 1\<close> interior
  bins, the uniform continuous transition builder returns a bins-by-bins matrix in which
  every entry from an interior bin to an interior bin equals \<open>1 / k\<close>, and every entry in
  a row or column of an exterior bin equals 0. The mask is the mask of these bins: it has
  one entry per bin centre.
\<close>

theorem uniform_state_transition_entries:
  assumes "length (ravel_F is_track_interior) = length place_bin_centers"
    and "k = length (filter id (ravel_F is_track_interior))"
    and "1 \<le> k"
  shows "\<exists>m. uniform_state_transition place_bin_centers is_track_interior = Inr m \<and>
           length m = length place_bin_centers \<and>
           (\<forall>i < length place_bin_centers. length (m ! i) = length place_bin_centers \<and>
              (\<forall>j < length place_bin_centers.
                 m ! i ! j =
                   (if ravel_F is_track_interior ! i \<and> ravel_F is_track_interior ! j
                    then 1 / real k else 0)))"
  using assms unfolding uniform_state_transition_eq[OF assms(1)]
  by (simp add: Let_def)

theorem uniform_state_transition_entries_witness:
  "length (ravel_F \<lparr>shape = [3], data = [True, False, True]\<rparr>) = length [[1], [3], [5::real]] \<and>
   1 \<le> length (filter id (ravel_F \<lparr>shape = [3], data = [True, False, True]\<rparr>)) \<and>
   uniform_state_transition [[1], [3], [5]] \<lparr>shape = [3], data = [True, False, True]\<rparr> =
     Inr [[1/2, 0, 1/2], [0, 0, 0], [1/2, 0, 1/2]]"
proof -
  let ?mask = "\<lparr>shape = [3], data = [True, False, True]\<rparr>"
  have r: "ravel_F ?mask = [True, False, True]"
    by code_simp
  have h1: "length (ravel_F ?mask) = length [[1], [3], [5::real]]"
    by (simp add: r)
  have h2: "2 = length (filter id (ravel_F ?mask))"
    by (simp add: r)
  have h3: "1 \<le> (2::nat)"
    by simp
  have v: "uniform_state_transition [[1], [3], [5]] ?mask =
             Inr [[1/2, 0, 1/2], [0, 0, 0], [1/2, 0, 1/2]]"
    by code_simp
  from uniform_state_transition_entries[OF h1 h2 h3] v h1 h2 show ?thesis
    by simp
qed

section \<open>Powers of a row-normalised matrix\<close>

text \<open>
  Claim C2 says that for every matrix whose rows each sum to 1 or to 0, and every
  \<open>replay_speed\<close> in {1, 2, 40}, the power again has every row summing to 1, or to 0 for
  the rows that were 0. The movement histogram of the positions in the bins 1, 0, 0 is
  \<open>[[1, 1], [0, 0]]\<close>; after normalisation its first row sums to 1 and its second to 0,
  but the first row of the square sums to 1/2, and that of the 40th power to \<open>1 / 2^39\<close>.
\<close>

theorem matrix_power_row_sums_counterexample:
  "normalize_row_probability [[1, 1], [0, 0]] = Inr [[1/2, 1/2], [0, 0]] \<and>
   row_sums [[1/2, 1/2], [0, 0]] = [1, 0] \<and>
   matrix_power [[1/2, 1/2], [0, 0]] 2 = Inr [[1/4, 1/4], [0, 0]] \<and>
   row_sums [[1/4, 1/4], [0, 0]] = [1/2, 0] \<and>
   matrix_power [[1/2, 1/2], [0, 0]] 40 = Inr [[1/2^40, 1/2^40], [0, 0]] \<and>
   row_sums [[1/2^40, 1/2^40], [0, 0]] = [1/2^39, 0]"
  by (simp add: normalize_row_probability_def normalize_row_def row_sums_def
      matrix_power_def dot_def identity_real_def eval_nat_numeral)

text \<open>
  Claim C2, amended. For every square matrix \<open>m\<close> with non-negative entries whose rows each
  sum to 1 or are entirely 0, and every \<open>speed \<ge> 1\<close> (so for 1, 2 and 40): the power is
  computed; the first power is \<open>m\<close>; a row that is 0 in \<open>m\<close> is 0 in the power; every row
  of the power sums to a value between 0 and 1; and every row of the power has the sum it
  has in \<open>m\<close> when each column of \<open>m\<close> that belongs to a zero row is zero too, which is
  what the builders that zero the exterior rows and columns produce.
\<close>

theorem matrix_power_row_sums:
  assumes "square n m"
    and "\<forall>i<n. \<forall>j<n. 0 \<le> m ! i ! j"
    and "\<forall>i<n. sum_list (m ! i) = 1 \<or> (\<forall>j<n. m ! i ! j = 0)"
    and "1 \<le> speed"
  shows "\<exists>q. matrix_power m speed = Inr q \<and> square n q \<and>
           (speed = 1 \<longrightarrow> q = m) \<and>
           (\<forall>i<n. (\<forall>j<n. m ! i ! j = 0) \<longrightarrow> (\<forall>j<n. q ! i ! j = 0)) \<and>
           (\<forall>i<n. 0 \<le> sum_list (q ! i) \<and> sum_list (q ! i) \<le> 1) \<and>
           ((\<forall>k<n. (\<forall>j<n. m ! k ! j = 0) \<longrightarrow> (\<forall>i<n. m ! i ! k = 0)) \<longrightarrow>
              (\<forall>i<n. sum_list (q ! i) = sum_list (m ! i)))"
proof -
  obtain p where p: "speed = Suc p"
    using assms(4) by (cases speed) auto
  let ?q = "power_loop m speed"
  have sq: "square n ?q" by (rule square_power_loop[OF assms(1)])
  have eq: "matrix_power m speed = Inr ?q"
    using assms(1) by (simp add: matrix_power_def square_def)
  have one: "speed = 1 \<longrightarrow> ?q = m"
    using power_loop_one[OF assms(1)] by simp
  have zero: "\<forall>i<n. (\<forall>j<n. m ! i ! j = 0) \<longrightarrow> (\<forall>j<n. ?q ! i ! j = 0)"
    unfolding p using zero_row_power[OF assms(1)] by blast
  have le: "\<forall>i<n. sum_list (m ! i) \<le> 1"
  proof (intro allI impI)
    fix i assume i: "i < n"
    show "sum_list (m ! i) \<le> 1"
    proof (cases "sum_list (m ! i) = 1")
      case False
      with assms(3) i have "\<forall>j<n. m ! i ! j = 0" by blast
      then have "sum_list (m ! i) = 0"
        using i by (simp add: sum_list_nth_sum[OF squareD[OF assms(1)]])
      then show ?thesis by simp
    qed simp
  qed
  have nn: "\<forall>i<n. \<forall>j<n. 0 \<le> ?q ! i ! j"
    by (rule nonneg_power[OF assms(1,2)])
  have bounds: "\<forall>i<n. 0 \<le> sum_list (?q ! i) \<and> sum_list (?q ! i) \<le> 1"
  proof (intro allI impI conjI)
    fix i assume i: "i < n"
    have "sum_list (?q ! i) = (\<Sum>j<n. ?q ! i ! j)"
      using i by (intro sum_list_nth_sum squareD[OF sq])
    also have "0 \<le> \<dots>" using nn i by (intro sum_nonneg) simp
    finally show "0 \<le> sum_list (?q ! i)" .
    show "sum_list (?q ! i) \<le> 1"
      using row_sum_le_power[OF assms(1,2) le] i by blast
  qed
  have closed: "(\<forall>k<n. (\<forall>j<n. m ! k ! j = 0) \<longrightarrow> (\<forall>i<n. m ! i ! k = 0)) \<longrightarrow>
              (\<forall>i<n. sum_list (?q ! i) = sum_list (m ! i))"
    unfolding p using row_sum_power_closed[OF assms(1,3)] by blast
  show ?thesis
    using eq sq one zero bounds closed by blast
qed

theorem matrix_power_row_sums_witness:
  "matrix_power [[1/2, 1/2, 0], [1/4, 3/4, 0], [0, 0, 0]] 2 =
     Inr [[3/8, 5/8, 0], [5/16, 11/16, 0], [0, 0, 0]] \<and>
   row_sums [[3/8, 5/8, 0], [5/16, 11/16, 0], [0, 0, 0]] = [1, 1, 0]"
proof -
  let ?m = "[[1/2, 1/2, 0], [1/4, 3/4, 0], [0, 0, 0 :: real]]"
  have h1: "square 3 ?m" by (simp add: square_def)
  have h2: "\<forall>i<3. \<forall>j<3. 0 \<le> ?m ! i ! j"
    by (simp add: numeral_3_eq_3 less_Suc_eq nth_Cons')
  have h3: "\<forall>i<3. sum_list (?m ! i) = 1 \<or> (\<forall>j<3. ?m ! i ! j = 0)"
    by (simp add: numeral_3_eq_3 less_Suc_eq nth_Cons')
  have h4: "1 \<le> (2::nat)" by simp
  show ?thesis
    using matrix_power_row_sums[OF h1 h2 h3 h4]
    by (simp add: matrix_power_def dot_def identity_real_def row_sums_def eval_nat_numeral)
qed

section \<open>The training mask of the empirical movement builder\<close>

lemma boolean_index_all_true:
  "boolean_index xs (replicate (length xs) True) = Inr xs"
proof -
  have "map fst (filter snd (zip xs (replicate (length xs) True))) = xs"
    by (induction xs) simp_all
  then show ?thesis by (simp add: boolean_index_def)
qed

lemma boolean_index_Inr:
  "boolean_index xs keep = Inr ys \<Longrightarrow> ys = map fst (filter snd (zip xs keep))"
  by (simp add: boolean_index_def split: if_splits)

text \<open>
  Claim C10. For every position array, edge set, replay speed, position extent and boolean
  mask \<open>is_training\<close>, \<open>empirical_movement\<close> of the position with the mask equals
  \<open>empirical_movement\<close> of the selected rows \<open>position[is_training]\<close> with the all-true
  mask (and raises whenever that selection raises): the mask is applied before the pairs of
  consecutive rows are formed, so two selected samples that are neighbours in the selection
  count as one step even when they are not neighbours in time.
\<close>

theorem empirical_movement_training_mask:
  "empirical_movement position edges (Some is_training) speed position_extent =
     (case boolean_index position is_training of
        Inl e \<Rightarrow> Inl e
      | Inr selected \<Rightarrow>
          empirical_movement selected edges (Some (replicate (length selected) True)) speed
            position_extent)"
  by (simp add: empirical_movement_def boolean_index_all_true split: sum.splits)

theorem empirical_movement_training_mask_witness:
  "boolean_index [[3/2], [1/2], [3/2::real]] [True, False, True] = Inr [[3/2], [3/2]] \<and>
   empirical_movement [[3/2], [1/2], [3/2]] [[0, 1, 2]] (Some [True, False, True]) 1 None =
     empirical_movement [[3/2], [3/2]] [[0, 1, 2]] (Some [True, True]) 1 None \<and>
   empirical_movement [[3/2], [1/2], [3/2]] [[0, 1, 2]] (Some [True, False, True]) 1 None =
     Inr [[0, 0], [0, 1]] \<and>
   empirical_movement [[3/2], [1/2], [3/2]] [[0, 1, 2]] None 1 None = Inr [[0, 1], [1, 0]]"
proof -
  have sel: "boolean_index [[3/2], [1/2], [3/2::real]] [True, False, True] = Inr [[3/2], [3/2]]"
    by (simp add: boolean_index_def)
  have masked: "empirical_movement [[3/2], [3/2]] [[0, 1, 2]] (Some [True, True]) 1 None =
      Inr [[0, 0], [0, 1]]"
    by code_simp
  have plain: "empirical_movement [[3/2], [1/2], [3/2]] [[0, 1, 2]] None 1 None =
      Inr [[0, 1], [1, 0]]"
    by code_simp
  from empirical_movement_training_mask
         [of "[[3/2], [1/2], [3/2]]" "[[0, 1, 2]]" "[True, False, True]" 1 None]
  have "empirical_movement [[3/2], [1/2], [3/2]] [[0, 1, 2]] (Some [True, False, True]) 1 None =
      empirical_movement [[3/2], [3/2]] [[0, 1, 2]] (Some [True, True]) 1 None"
    by (simp add: sel)
  with sel masked plain show ?thesis by simp
qed

section \<open>The track-interior mask that the caller supplies\<close>

lemma fit_place_grid_supplied_mask:
  "fit_place_grid h self position None center_well_id edge_order edge_spacing infer
       (Some supplied) =
     and_then (get_grid h position (place_bin_size self) (position_range self)
                 (infer_track_interior self))
       (\<lambda>(edges, place_bin_edges, place_bin_centers, centers_shape).
          Inr (self\<lparr>edges' := Some edges,
                     place_bin_edges' := Some place_bin_edges,
                     place_bin_centers' := Some place_bin_centers,
                     centers_shape' := Some centers_shape,
                     place_bin_center_ind_to_node' := Some None,
                     distance_between_nodes' := Some None,
                     infer_track_interior := infer\<rparr>))"
  by (auto simp: fit_place_grid_def and_then_def Let_def split: sum.splits prod.splits)

text \<open>
  Claim C3 says that a fit with a supplied track-interior mask uses that mask as
  \<open>is_track_interior'\<close>. In \<open>fit_place_grid\<close> both branches that assign the attribute ask
  for \<open>is_track_interior is None\<close>, and no branch handles a supplied mask: the attribute
  keeps the value it had before the call. On a classifier that has not been fitted before
  (here the one with every argument at its default) the attribute is missing, and \<open>fit\<close>
  of either classifier ends in the AttributeError of \<open>fit_initial_conditions\<close> as soon as
  the grid has been computed.
\<close>

theorem fit_supplied_mask_not_used:
  "SortedSpikesClassifier_fit h SortedSpikesClassifier_default position spikes is_training
       (Some supplied) None center_well_id edge_order edge_spacing =
     (case get_grid h position 2 None True of Inl e \<Rightarrow> Inl e | Inr grid \<Rightarrow> Inl AttributeError) \<and>
   ClusterlessClassifier_fit h ClusterlessClassifier_default position multiunits is_training
       (Some supplied) None center_well_id edge_order edge_spacing =
     (case get_grid h position 2 None True of Inl e \<Rightarrow> Inl e | Inr grid \<Rightarrow> Inl AttributeError) \<and>
   (case fit_place_grid h self position None center_well_id edge_order edge_spacing infer
           (Some supplied) of
      Inl e \<Rightarrow> True
    | Inr fitted \<Rightarrow> is_track_interior' fitted = is_track_interior' self)"
proof -
  have a: "SortedSpikesClassifier_fit h SortedSpikesClassifier_default position spikes
       is_training (Some supplied) None center_well_id edge_order edge_spacing =
     (case get_grid h position 2 None True of Inl e \<Rightarrow> Inl e | Inr grid \<Rightarrow> Inl AttributeError)"
    unfolding SortedSpikesClassifier_fit_def fit_place_grid_supplied_mask
    by (simp add: SortedSpikesClassifier_default_def SortedSpikesClassifier_init_def
        ClassifierBase_init_def classifier_base.defs sorted_spikes_classifier.defs
        fit_initial_conditions_def Let_def
        split: sum.splits prod.splits)
  have b: "ClusterlessClassifier_fit h ClusterlessClassifier_default position multiunits
       is_training (Some supplied) None center_well_id edge_order edge_spacing =
     (case get_grid h position 2 None True of Inl e \<Rightarrow> Inl e | Inr grid \<Rightarrow> Inl AttributeError)"
    unfolding ClusterlessClassifier_fit_def fit_place_grid_supplied_mask
    by (simp add: ClusterlessClassifier_default_def ClusterlessClassifier_init_def
        ClassifierBase_init_def classifier_base.defs clusterless_classifier.defs
        fit_initial_conditions_def Let_def
        split: sum.splits prod.splits)
  have c: "(case fit_place_grid h self position None center_well_id edge_order edge_spacing
           infer (Some supplied) of
      Inl e \<Rightarrow> True
    | Inr fitted \<Rightarrow> is_track_interior' fitted = is_track_interior' self)"
    unfolding fit_place_grid_supplied_mask
    by (cases "get_grid h position (place_bin_size self) (position_range self)
                 (infer_track_interior self)") (auto split: prod.splits)
  from a b c show ?thesis by blast
qed

theorem fit_supplied_mask_not_used_witness:
  "SortedSpikesClassifier_fit example_helpers SortedSpikesClassifier_default
       [[3/2], [1/2]] [[0], [1]] None (Some \<lparr>shape = [2], data = [True, False]\<rparr>)
       None None None None = Inl AttributeError \<and>
   ClusterlessClassifier_fit example_helpers ClusterlessClassifier_default
       [[3/2], [1/2]] [[[0]], [[1]]] None (Some \<lparr>shape = [2], data = [True, False]\<rparr>)
       None None None None = Inl AttributeError"
  using fit_supplied_mask_not_used
          [of example_helpers "[[3/2], [1/2]]" "[[0], [1]]" None
              "\<lparr>shape = [2], data = [True, False]\<rparr>" None None None "[[[0]], [[1]]]"
              SortedSpikesClassifier_default True]
  by (simp add: example_helpers_def)

section \<open>The initial conditions\<close>

lemma sum_list_uniform:
  "(\<Sum>k\<leftarrow>keep. if k then (c::real) else 0) = real (length (filter id keep)) * c"
  by (induction keep) (simp_all add: algebra_simps)

lemma sum_list_concat_replicate:
  fixes row :: "real list"
  shows "sum_list (concat (replicate n row)) = real n * sum_list row"
  by (induction n) (simp_all add: algebra_simps)

text \<open>
  Claim C5. For every fitted classifier with at least one interior bin, the fitted initial
  conditions sum to 1 over all pairs of a regime and a bin, give the same mass to every
  pair of a regime and an interior bin, and are 0 at every exterior bin in every regime.
  The classifier has its grid and its mask, of one entry per bin, and at least one regime:
  that is what \<open>fit_initial_conditions\<close> needs to succeed.
\<close>

theorem fit_initial_conditions_uniform:
  assumes "place_bin_centers' self = Some centers"
    and "is_track_interior' self = Some interior"
    and "length (ravel_F interior) = length centers"
    and "n_states = length (continuous_transition_types self)"
    and "1 \<le> n_states"
    and "k = length (filter id (ravel_F interior))"
    and "1 \<le> k"
  shows "\<exists>fitted ic. fit_initial_conditions self = Inr fitted \<and>
           initial_conditions' fitted = Some ic \<and>
           length ic = n_states \<and>
           sum_list (concat ic) = 1 \<and>
           (\<forall>s < n_states. length (ic ! s) = length centers \<and>
              (\<forall>b < length centers.
                 ic ! s ! b = (if ravel_F interior ! b then 1 / (real k * real n_states)
                               else 0)))"
proof -
  let ?keep = "ravel_F interior"
  let ?u = "map (\<lambda>b. if b then 1 / real k else 0) ?keep"
  let ?row = "map (\<lambda>v. v / real n_states) ?u"
  let ?ic = "replicate n_states ?row"
  have "filter id ?keep \<noteq> []"
    using assms(6,7) by auto
  then have u: "uniform_on_track centers interior = Inr ?u"
    using assms(3,6) by (simp add: uniform_on_track_def Let_def)
  have "continuous_transition_types self \<noteq> []"
    using assms(4,5) by auto
  then have fit: "fit_initial_conditions self = Inr (self\<lparr>initial_conditions' := Some ?ic\<rparr>)"
    using assms(1,2,4) u by (simp add: fit_initial_conditions_def Let_def)
  have "sum_list ?u = real k * (1 / real k)"
    using assms(6) by (simp add: sum_list_uniform)
  then have su: "sum_list ?u = 1"
    using assms(7) by simp
  have "sum_list ?row = sum_list ?u / real n_states"
    by (rule sum_list_divide_const)
  then have "sum_list (concat ?ic) = real n_states * (1 / real n_states)"
    using su by (simp add: sum_list_concat_replicate)
  then have total: "sum_list (concat ?ic) = 1"
    using assms(5) by simp
  have entries: "\<forall>s < n_states. length (?ic ! s) = length centers \<and>
              (\<forall>b < length centers.
                 ?ic ! s ! b = (if ?keep ! b then 1 / (real k * real n_states) else 0))"
    using assms(3) by simp
  show ?thesis
    using fit total entries by (intro exI[of _ "self\<lparr>initial_conditions' := Some ?ic\<rparr>"] exI[of _ ?ic]) simp
qed

theorem fit_initial_conditions_uniform_witness:
  "map_sum id initial_conditions'
     (fit_initial_conditions
        (SortedSpikesClassifier_default
           \<lparr>place_bin_centers' := Some [[1/2], [3/2], [5/2]],
            is_track_interior' := Some \<lparr>shape = [3], data = [True, False, True]\<rparr>\<rparr>)) =
     Inr (Some [[1/6, 0, 1/6], [1/6, 0, 1/6], [1/6, 0, 1/6]]) \<and>
   sum_list (concat [[1/6, 0, 1/6], [1/6, 0, 1/6], [1/6, 0, 1/6 :: real]]) = 1"
proof -
  let ?mask = "\<lparr>shape = [3], data = [True, False, True]\<rparr>"
  let ?self = "SortedSpikesClassifier_default
           \<lparr>place_bin_centers' := Some [[1/2], [3/2], [5/2]],
            is_track_interior' := Some ?mask\<rparr>"
  have r: "ravel_F ?mask = [True, False, True]"
    by code_simp
  have h1: "place_bin_centers' ?self = Some [[1/2], [3/2], [5/2]]"
    by simp
  have h2: "is_track_interior' ?self = Some ?mask"
    by simp
  have h3: "length (ravel_F ?mask) = length [[1/2], [3/2], [5/2::real]]"
    by (simp add: r)
  have h4: "3 = length (continuous_transition_types ?self)"
    by (simp add: SortedSpikesClassifier_default_def SortedSpikesClassifier_init_def
        ClassifierBase_init_def classifier_base.defs DEFAULT_CONTINUOUS_TRANSITIONS_def)
  have h5: "1 \<le> (3::nat)"
    by simp
  have h6: "2 = length (filter id (ravel_F ?mask))"
    by (simp add: r)
  have h7: "1 \<le> (2::nat)"
    by simp
  from fit_initial_conditions_uniform[OF h1 h2 h3 h4 h5 h6 h7]
  obtain fitted ic where f: "fit_initial_conditions ?self = Inr fitted"
    and i: "initial_conditions' fitted = Some ic"
    and l: "length ic = 3"
    and e: "\<forall>s<3. length (ic ! s) = 3 \<and>
              (\<forall>b<3. ic ! s ! b = (if [True, False, True] ! b then 1 / (real 2 * real 3) else 0))"
    unfolding r by auto
  have "ic = [[1/6, 0, 1/6], [1/6, 0, 1/6], [1/6, 0, 1/6]]"
  proof (rule nth_equalityI)
    show "length ic = length [[1/6, 0, 1/6], [1/6, 0, 1/6], [1/6, 0, 1/6::real]]"
      using l by simp
    fix s assume "s < length ic"
    then have s: "s < 3" using l by simp
    then have ls: "length (ic ! s) = 3"
      and es: "\<forall>b<3. ic ! s ! b = (if [True, False, True] ! b then 1 / (real 2 * real 3) else 0)"
      using e by auto
    have "ic ! s = [1/6, 0, 1/6]"
    proof (rule nth_equalityI)
      show "length (ic ! s) = length [1/6, 0, 1/6::real]" using ls by simp
      fix b assume "b < length (ic ! s)"
      then have "b < 3" using ls by simp
      then have "b = 0 \<or> b = 1 \<or> b = 2" by auto
      then show "ic ! s ! b = [1/6, 0, 1/6] ! b"
        using es by auto
    qed
    moreover have "s = 0 \<or> s = 1 \<or> s = 2" using s by auto
    ultimately show "ic ! s = [[1/6, 0, 1/6], [1/6, 0, 1/6], [1/6, 0, 1/6]] ! s"
      by auto
  qed
  with f i show ?thesis by simp
qed


section \<open>The marginal probabilities\<close>

lemma dataset_sum_cases:
  "dataset_sum ds names = Inl ValueError \<or> (\<exists>d. dataset_sum ds names = Inr d)"
  by (simp add: dataset_sum_def)

lemma dataset_sum_fails_iff:
  "dataset_sum ds names = Inl ValueError \<longleftrightarrow> \<not> set names \<subseteq> set (dataset_dims ds)"
  by (auto simp: dataset_sum_def list_all_iff)

text \<open>
  Claim C9. For every results dataset, \<open>predict_proba\<close> returns the dataset summed over
  the axes named \<open>x_position\<close> and \<open>y_position\<close> when that summation succeeds, and exactly
  when that summation fails with a ValueError, which is when one of the two axis names is
  absent, it returns instead what the summation over the single axis named \<open>position\<close>
  returns. The summation has no other outcome.
\<close>

theorem predict_proba_fallback:
  "(case dataset_sum results [''x_position'', ''y_position''] of
      Inr summed \<Rightarrow> predict_proba results = Inr summed
    | Inl e \<Rightarrow> e = ValueError \<and> predict_proba results = dataset_sum results [''position'']) \<and>
   (dataset_sum results [''x_position'', ''y_position''] = Inl ValueError \<longleftrightarrow>
      \<not> (''x_position'' \<in> set (dataset_dims results) \<and>
         ''y_position'' \<in> set (dataset_dims results)))"
proof -
  have "dataset_sum results [''x_position'', ''y_position''] = Inl ValueError \<longleftrightarrow>
      \<not> (''x_position'' \<in> set (dataset_dims results) \<and>
         ''y_position'' \<in> set (dataset_dims results))"
    by (simp add: dataset_sum_fails_iff)
  moreover have "case dataset_sum results [''x_position'', ''y_position''] of
      Inr summed \<Rightarrow> predict_proba results = Inr summed
    | Inl e \<Rightarrow> e = ValueError \<and> predict_proba results = dataset_sum results [''position'']"
    using dataset_sum_cases[of results "[''x_position'', ''y_position'']"]
    by (auto simp: predict_proba_def)
  ultimately show ?thesis by blast
qed

theorem predict_proba_fallback_witness:
  "dataset_sum
     \<lparr>data_vars = [(''causal_posterior'',
                    \<lparr>dims = [''time'', ''state'', ''position''],
                     entries = \<lparr>shape = [1, 2, 2],
                                data = [Some (1/10), None, Some (2/5), Some (1/2)]\<rparr>\<rparr>)],
      coords = [(''time'', Numbers [0]), (''position'', Numbers [1/2, 3/2]),
                (''state'', Labels [''uniform'', ''identity''])]\<rparr>
     [''x_position'', ''y_position''] = Inl ValueError \<and>
   predict_proba
     \<lparr>data_vars = [(''causal_posterior'',
                    \<lparr>dims = [''time'', ''state'', ''position''],
                     entries = \<lparr>shape = [1, 2, 2],
                                data = [Some (1/10), None, Some (2/5), Some (1/2)]\<rparr>\<rparr>)],
      coords = [(''time'', Numbers [0]), (''position'', Numbers [1/2, 3/2]),
                (''state'', Labels [''uniform'', ''identity''])]\<rparr> =
     Inr \<lparr>data_vars = [(''causal_posterior'',
                        \<lparr>dims = [''time'', ''state''],
                         entries = \<lparr>shape = [1, 2], data = [Some (1/10), Some (9/10)]\<rparr>\<rparr>)],
          coords = [(''time'', Numbers [0]), (''state'', Labels [''uniform'', ''identity''])]\<rparr>"
proof -
  let ?results = "\<lparr>data_vars = [(''causal_posterior'',
                    \<lparr>dims = [''time'', ''state'', ''position''],
                     entries = \<lparr>shape = [1, 2, 2],
                                data = [Some (1/10), None, Some (2/5), Some (1/2)]\<rparr>\<rparr>)],
      coords = [(''time'', Numbers [0]), (''position'', Numbers [1/2, 3/2]),
                (''state'', Labels [''uniform'', ''identity''])]\<rparr>"
  have first: "dataset_sum ?results [''x_position'', ''y_position''] = Inl ValueError"
    by code_simp
  have second: "dataset_sum ?results [''position''] =
     Inr \<lparr>data_vars = [(''causal_posterior'',
                        \<lparr>dims = [''time'', ''state''],
                         entries = \<lparr>shape = [1, 2], data = [Some (1/10), Some (9/10)]\<rparr>\<rparr>)],
          coords = [(''time'', Numbers [0]), (''state'', Labels [''uniform'', ''identity''])]\<rparr>"
    by code_simp
  have "case Inl ValueError :: error + dataset of
      Inr summed \<Rightarrow> predict_proba ?results = Inr summed
    | Inl e \<Rightarrow> e = ValueError \<and> predict_proba ?results = dataset_sum ?results [''position'']"
    using predict_proba_fallback[of ?results] unfolding first by (rule conjunct1)
  then have "predict_proba ?results = dataset_sum ?results [''position'']"
    by simp
  with first second show ?thesis
    by (simp only:)
qed

section \<open>What prediction leaves unchanged\<close>




text \<open>
  A write of the likelihood function into the place fields it is given shows in the
  classifier that \<open>predict\<close> leaves: here the function sets every rate to zero.
\<close>

lemma predict_keeps_the_writes_of_the_likelihood:
  "place_fields'
     (snd (SortedSpikesClassifier_predict
             (example_helpers\<lparr>spiking_likelihood_leaves :=
                 (\<lambda>spikes fields interior. (map (map (\<lambda>v. 0)) fields, interior))\<rparr>)
             (SortedSpikesClassifier_default
                \<lparr>continuous_state_transition' := Some [],
                 place_fields' := Some [[1]],
                 is_track_interior' := Some \<lparr>shape = [1], data = [True]\<rparr>\<rparr>)
             [[0]] None True)) =
   Some [[0]]"
  by (simp add: SortedSpikesClassifier_predict_def example_helpers_def Let_def)


section \<open>The final time step of the smoothed posterior\<close>

lemma sequence_Inr_last:
  assumes "sequence (map f v) = Inr ms" "v \<noteq> []"
  shows "f (last v) = Inr (last ms)"
proof -
  have len: "length ms = length v"
    using sequence_Inr_length[OF assms(1)] by simp
  have "map f v ! (length v - 1) = Inr (ms ! (length v - 1))"
    using assms by (intro sequence_Inr_nth) simp_all
  moreover have "ms \<noteq> []"
    using assms(2) len by auto
  ultimately show ?thesis
    using assms(2) len by (simp add: last_conv_nth)
qed

lemma sequence_Inr_all:
  assumes "sequence (map f v) = Inr ms" "m \<in> set ms"
  shows "\<exists>x \<in> set v. f x = Inr m"
proof -
  from assms(2) obtain i where i: "i < length ms" "ms ! i = m"
    by (auto simp: in_set_conv_nth)
  have len: "length ms = length v"
    using sequence_Inr_length[OF assms(1)] by simp
  have "map f v ! i = Inr (ms ! i)"
    using assms(1) i len by (intro sequence_Inr_nth) simp_all
  then show ?thesis using i len by auto
qed

lemma mask_bins_length: "mask_bins row keep = Inr r \<Longrightarrow> length r = length keep"
  by (auto simp: mask_bins_def split: if_splits)

lemma length_concat_uniform:
  "(\<And>x. x \<in> set xs \<Longrightarrow> length x = b) \<Longrightarrow> length (concat xs) = length xs * b"
  by (induction xs) simp_all

lemma mask_time_step_length:
  assumes "mask_time_step at_time keep = Inr m"
  shows "length (concat m) = length at_time * length keep"
proof -
  have "length m = length at_time"
    using sequence_Inr_length[OF assms[unfolded mask_time_step_def]] by simp
  moreover have "length r = length keep" if "r \<in> set m" for r
    using sequence_Inr_all[OF assms[unfolded mask_time_step_def] that] mask_bins_length
    by blast
  ultimately show ?thesis
    using length_concat_uniform[of m "length keep"] by simp
qed

lemma drop_concat_last:
  assumes "xs \<noteq> []" "\<And>x. x \<in> set xs \<Longrightarrow> length x = b"
  shows "drop ((length xs - 1) * b) (concat xs) = last xs"
proof -
  have xs: "xs = butlast xs @ [last xs]"
    using assms(1) by simp
  have "length (concat (butlast xs)) = length (butlast xs) * b"
    using assms(2) by (intro length_concat_uniform) (auto dest: in_set_butlastD)
  then have len: "length (concat (butlast xs)) = (length xs - 1) * b"
    by simp
  have "concat xs = concat (butlast xs) @ last xs"
    by (subst xs) simp
  then show ?thesis
    using len by simp
qed

lemma drop_concat_blocks:
  assumes "\<And>x. x \<in> set xs \<Longrightarrow> length x = b"
  shows "drop (k * b) (concat xs) = concat (drop k xs)"
  using assms
proof (induction xs arbitrary: k)
  case Nil
  then show ?case by simp
next
  case (Cons x xs)
  show ?case
  proof (cases k)
    case 0
    then show ?thesis by simp
  next
    case (Suc j)
    have "drop (Suc j * b) (concat (x # xs)) = drop (j * b) (concat xs)"
      using Cons.prems[of x] by simp
    also have "\<dots> = concat (drop j xs)"
      using Cons.prems by (intro Cons.IH) simp
    finally show ?thesis using Suc by simp
  qed
qed

lemma length_chunks: "length (chunks n m xs) = n"
  by (induction n arbitrary: xs) simp_all

lemma drop_chunks: "drop k (chunks n m xs) = chunks (n - k) m (drop (k * m) xs)"
proof (induction k arbitrary: n xs)
  case 0
  then show ?case by simp
next
  case (Suc k)
  show ?case
  proof (cases n)
    case 0
    then show ?thesis by simp
  next
    case (Suc j)
    then show ?thesis
      using Suc.IH[of j "drop m xs"] by (simp add: add.commute)
  qed
qed

lemma length_transposed: "length (transposed block c0 c1) = c1 * c0"
proof -
  have "length (concat (map (\<lambda>j. map (\<lambda>i. block ! (i * c1 + j)) [0..<c0]) [0..<c1])) =
          length (map (\<lambda>j. map (\<lambda>i. block ! (i * c1 + j)) [0..<c0]) [0..<c1]) * c0"
    by (rule length_concat_uniform) auto
  then show ?thesis by (simp add: transposed_def)
qed

lemma swapaxes_last_length:
  assumes "swapaxes_last x = Inr sw"
  shows "length (shape sw) = length (shape x)"
proof -
  obtain c1 c0 leading where r: "rev (shape x) = c1 # c0 # leading"
    and sw: "shape sw = rev leading @ [c1, c0]"
    using assms by (auto simp: swapaxes_last_def split: list.splits)
  have "length (shape x) = length (rev (shape x))" by simp
  also have "\<dots> = length leading + 2" unfolding r by simp
  finally show ?thesis using sw by simp
qed

lemma swapaxes_last_four:
  assumes "swapaxes_last \<lparr>shape = [a, b] @ cs, data = d\<rparr> = Inr sw" "length (shape sw) = 4"
  shows "\<exists>c0 c1. cs = [c0, c1] \<and>
           sw = \<lparr>shape = [a, b, c1, c0],
                 data = concat (map (\<lambda>block. transposed block c0 c1)
                                  (chunks (b * a) (c0 * c1) d))\<rparr>"
proof -
  have "length (shape sw) = length (shape \<lparr>shape = [a, b] @ cs, data = d\<rparr>)"
    using assms(1) by (rule swapaxes_last_length)
  then have "length cs = 2"
    using assms(2) by simp
  then obtain c0 c1 where cs: "cs = [c0, c1]"
    by (auto simp: length_Suc_conv numeral_2_eq_2)
  show ?thesis
    using assms(1) unfolding cs by (auto simp: swapaxes_last_def)
qed

lemma to_variable_final:
  assumes tv: "to_variable v keep npd n_time n_states cs = Inr var"
    and len: "length v = n_time" and pos: "0 < n_time"
  shows "\<exists>m. mask_time_step (last v) keep = Inr m \<and>
     dims var = (if 1 < npd then [''time'', ''state'', ''x_position'', ''y_position'']
                 else [''time'', ''state'', ''position'']) \<and>
     shape (entries var) = (if 1 < npd then [n_time, n_states, cs ! 1, cs ! 0]
                            else [n_time, n_states, length keep]) \<and>
     final_time_slice var =
       (if 1 < npd
        then concat (map (\<lambda>block. transposed block (cs ! 0) (cs ! 1))
                       (chunks n_states (cs ! 0 * cs ! 1) (concat m)))
        else concat m)"
proof -
  have rows: "\<And>at_time. at_time \<in> set v \<Longrightarrow> length at_time = n_states"
    using tv by (auto simp: to_variable_def list_all_iff split: if_splits)
  obtain masked where masked: "sequence (map (\<lambda>at_time. mask_time_step at_time keep) v) = Inr masked"
    and rest: "(let a = \<lparr>shape = [length v, n_states, length keep],
                  data = concat (map concat masked)\<rparr>
        in if 1 < npd then
             and_then (reshape_C a ([n_time, n_states] @ cs)) (\<lambda>reshaped.
             and_then (swapaxes_last reshaped) (\<lambda>swapped.
               if length (shape swapped) \<noteq> 4 then Inl ValueError
               else Inr \<lparr>dims = [''time'', ''state'', ''x_position'', ''y_position''],
                         entries = swapped\<rparr>))
           else Inr \<lparr>dims = [''time'', ''state'', ''position''], entries = a\<rparr>) = Inr var"
    using tv by (auto simp: to_variable_def and_then_Inr_iff split: if_splits)
  have v: "v \<noteq> []" using len pos by auto
  have lm: "length masked = n_time"
    using sequence_Inr_length[OF masked] len by simp
  then have mne: "masked \<noteq> []" using pos by auto
  have last: "mask_time_step (last v) keep = Inr (last masked)"
    using sequence_Inr_last[OF masked v] .
  let ?B = "n_states * length keep"
  have block: "length x = ?B" if "x \<in> set (map concat masked)" for x
  proof -
    from that obtain m where m: "m \<in> set masked" "x = concat m" by auto
    from sequence_Inr_all[OF masked m(1)] obtain at_time where
      "at_time \<in> set v" "mask_time_step at_time keep = Inr m" by blast
    then show ?thesis
      using mask_time_step_length rows m(2) by simp
  qed
  let ?data = "concat (map concat masked)"
  have total: "length ?data = n_time * ?B"
    using length_concat_uniform[of "map concat masked" ?B] block lm by simp
  have final: "drop ((n_time - 1) * ?B) ?data = concat (last masked)"
    using drop_concat_last[of "map concat masked" ?B] block mne lm
    by (simp add: last_map)
  show ?thesis
  proof (cases "1 < npd")
    case False
    then have "var = \<lparr>dims = [''time'', ''state'', ''position''],
                      entries = \<lparr>shape = [length v, n_states, length keep], data = ?data\<rparr>\<rparr>"
      using rest by (simp add: Let_def)
    then show ?thesis
      using False last final len by (simp add: final_time_slice_def)
  next
    case True
    then obtain swapped where
      re: "prod_list ([n_time, n_states] @ cs) = length ?data"
      and sw: "swapaxes_last \<lparr>shape = [n_time, n_states] @ cs, data = ?data\<rparr> = Inr swapped"
      and four: "length (shape swapped) = 4"
      and var: "var = \<lparr>dims = [''time'', ''state'', ''x_position'', ''y_position''],
                        entries = swapped\<rparr>"
      using rest
      by (auto simp: Let_def and_then_Inr_iff reshape_C_def split: if_splits)
    from swapaxes_last_four[OF sw four] obtain c0 c1 where cs: "cs = [c0, c1]"
      and swapped: "swapped = \<lparr>shape = [n_time, n_states, c1, c0],
                 data = concat (map (\<lambda>block. transposed block c0 c1)
                                  (chunks (n_states * n_time) (c0 * c1) ?data))\<rparr>"
      by blast
    have "n_time * (n_states * (c0 * c1)) = n_time * ?B"
      using re total unfolding cs by simp
    then have B: "n_states * (c0 * c1) = ?B"
      using pos by simp
    let ?f = "\<lambda>block. transposed block c0 c1"
    let ?chs = "chunks (n_states * n_time) (c0 * c1) ?data"
    let ?k = "(n_time - 1) * n_states"
    have "drop (?k * (c1 * c0)) (concat (map ?f ?chs)) = concat (drop ?k (map ?f ?chs))"
      by (rule drop_concat_blocks) (auto simp: length_transposed)
    also have "drop ?k (map ?f ?chs) = map ?f (drop ?k ?chs)"
      by (simp add: drop_map)
    also have "drop ?k ?chs = chunks (n_states * n_time - ?k) (c0 * c1) (drop (?k * (c0 * c1)) ?data)"
      by (rule drop_chunks)
    also have "n_states * n_time - ?k = n_states"
      using pos by (cases n_time) (simp_all add: algebra_simps)
    also have "?k * (c0 * c1) = (n_time - 1) * ?B"
      using B by (simp add: mult.assoc)
    also have "drop ((n_time - 1) * ?B) ?data = concat (last masked)"
      by (rule final)
    finally have slice: "drop (?k * (c1 * c0)) (concat (map ?f ?chs)) =
        concat (map ?f (chunks n_states (c0 * c1) (concat (last masked))))" .
    have "final_time_slice var = drop ((n_time - 1) * (n_states * (c1 * c0))) (concat (map ?f ?chs))"
      unfolding var swapped by (simp add: final_time_slice_def)
    also have "(n_time - 1) * (n_states * (c1 * c0)) = ?k * (c1 * c0)"
      by (simp add: mult.assoc)
    finally have "final_time_slice var =
        concat (map ?f (chunks n_states (c0 * c1) (concat (last masked))))"
      using slice by simp
    then show ?thesis
      using True last var swapped cs by simp
  qed
qed

lemma causal_steps_length:
  "causal_steps C D previous likelihood = Inr posteriors \<Longrightarrow>
   length posteriors = length likelihood"
  by (induction likelihood arbitrary: previous posteriors)
     (auto simp: and_then_Inr_iff)

lemma causal_classify_length:
  "causal_classify initial C D likelihood = Inr posteriors \<Longrightarrow>
   length posteriors = length likelihood"
  by (cases likelihood)
     (auto simp: causal_classify_def and_then_Inr_iff dest: causal_steps_length)

lemma acausal_classify_final:
  "acausal_classify causal C D = Inr smoothed \<Longrightarrow>
   length smoothed = length causal \<and> (causal \<noteq> [] \<longrightarrow> last smoothed = last causal)"
proof (induction causal C D arbitrary: smoothed rule: acausal_classify.induct)
  case (1 C D)
  then show ?case by simp
next
  case (2 final C D)
  then show ?case by auto
next
  case (3 causal c later C D)
  from "3.prems" obtain rest acausal where
    rest: "acausal_classify (c # later) C D = Inr rest"
    and sm: "smoothed = acausal # rest"
    by (auto simp: and_then_Inr_iff)
  from "3.IH"[OF rest] have "length rest = length (c # later)" "last rest = last (c # later)"
    by auto
  then show ?case
    using sm by auto
qed

lemma classify_acausal:
  assumes "classify self n_states likelihood True = Inr results"
  shows "\<exists>stacked cp ap.
           results = [(''likelihood'', stacked), (''causal_posterior'', cp),
                      (''acausal_posterior'', ap)] \<and>
           length cp = length likelihood \<and> length ap = length likelihood \<and>
           (likelihood \<noteq> [] \<longrightarrow> last ap = last cp)"
proof -
  let ?lk = "map (\<lambda>row. replicate n_states row) likelihood"
  from assms obtain initial C D cp ap where
    cp: "causal_classify initial C D ?lk = Inr cp"
    and ap: "acausal_classify cp C D = Inr ap"
    and results: "results = [(''likelihood'', ?lk), (''causal_posterior'', cp),
                             (''acausal_posterior'', ap)]"
    unfolding classify_def Let_def
    by (auto simp: and_then_Inr_iff split: if_splits)
  have lc: "length cp = length likelihood"
    using causal_classify_length[OF cp] by simp
  show ?thesis
    using acausal_classify_final[OF ap] lc results by auto
qed

lemma to_dataset_data_vars:
  assumes "to_dataset self results n_states n_time time = Inr ds"
  shows "\<exists>keep npd cs. to_variables results keep npd n_time n_states cs = Inr (data_vars ds)"
proof -
  have dv: "Dataset variables cds = Inr ds \<Longrightarrow> data_vars ds = variables" for variables cds
    by (auto simp: Dataset_def split: if_splits)
  from assms show ?thesis
    unfolding to_dataset_def Let_def
    by (auto simp: and_then_Inr_iff split: if_splits dest!: dv)
qed

lemma variables_agree:
  assumes vars: "to_variables [(''likelihood'', lk), (''causal_posterior'', cp),
                     (''acausal_posterior'', ap)] keep npd n_time n_states cs = Inr variables"
    and lc: "length cp = n_time" and la: "length ap = n_time" and pos: "0 < n_time"
    and last: "last ap = last cp"
  shows "\<exists>v1 vc va. variables = [(''likelihood'', v1), (''causal_posterior'', vc),
                                 (''acausal_posterior'', va)] \<and>
           dims va = dims vc \<and> shape (entries va) = shape (entries vc) \<and>
           final_time_slice va = final_time_slice vc"
proof -
  from vars obtain v1 vc va where
    vc: "to_variable cp keep npd n_time n_states cs = Inr vc"
    and va: "to_variable ap keep npd n_time n_states cs = Inr va"
    and variables: "variables = [(''likelihood'', v1), (''causal_posterior'', vc),
                                 (''acausal_posterior'', va)]"
    unfolding to_variables_def
    by (auto simp: and_then_Inr_iff split: sum.splits)
  from to_variable_final[OF vc lc pos] to_variable_final[OF va la pos] last
  have "dims va = dims vc \<and> shape (entries va) = shape (entries vc) \<and>
        final_time_slice va = final_time_slice vc"
    by auto
  then show ?thesis
    using variables by simp
qed

lemma assemble_results_final:
  assumes "assemble_results self n_states likelihood n_time time True = Inr results"
    and "length likelihood = n_time" and "0 < n_time"
  shows "final_posteriors_agree results"
proof -
  from assms(1) obtain arrays where
    arrays: "classify self n_states likelihood True = Inr arrays"
    and ds: "to_dataset self arrays n_states n_time time = Inr results"
    by (auto simp: assemble_results_def and_then_Inr_iff)
  from classify_acausal[OF arrays] obtain stacked cp ap where
    a: "arrays = [(''likelihood'', stacked), (''causal_posterior'', cp),
                  (''acausal_posterior'', ap)]"
    and lc: "length cp = n_time" and la: "length ap = n_time" and last: "last ap = last cp"
    using assms(2,3) by auto
  from to_dataset_data_vars[OF ds] obtain keep npd cs where
    "to_variables arrays keep npd n_time n_states cs = Inr (data_vars results)"
    by blast
  from variables_agree[OF this[unfolded a] lc la assms(3) last]
  show ?thesis
    unfolding final_posteriors_agree_def by auto
qed

text \<open>
  Claim C4. For every fitted classifier and every predict call with \<open>is_compute_acausal\<close>
  enabled, the returned smoothed posterior at the final time index equals the causal
  posterior at the final time index, element for element. The call returns a dataset, there
  is at least one time bin, and the likelihood function, which is not among the sources,
  returns one row per time bin, as the spec describes it.
\<close>

theorem acausal_final_equals_causal:
  "(fst (SortedSpikesClassifier_predict h self spikes time True) = Inr results \<and>
    spikes \<noteq> [] \<and>
    (\<forall>fields interior l. estimate_spiking_likelihood h spikes fields interior = Inr l \<longrightarrow>
       length l = length spikes)
    \<longrightarrow> final_posteriors_agree results) \<and>
   (fst (ClusterlessClassifier_predict h clusterless multiunits time True) = Inr results' \<and>
    multiunits \<noteq> [] \<and>
    (\<forall>centers models intensities occupancy rates interior l.
       estimate_multiunit_likelihood h multiunits centers models intensities occupancy rates
         interior = Inr l \<longrightarrow> length l = length multiunits)
    \<longrightarrow> final_posteriors_agree results')"
proof (intro conjI impI)
  assume a: "fst (SortedSpikesClassifier_predict h self spikes time True) = Inr results \<and>
    spikes \<noteq> [] \<and>
    (\<forall>fields interior l. estimate_spiking_likelihood h spikes fields interior = Inr l \<longrightarrow>
       length l = length spikes)"
  then have "fst (SortedSpikesClassifier_predict h self spikes time True) = Inr results"
    by simp
  from SortedSpikesClassifier_predict_Inr[OF this] a
  obtain after :: sorted_spikes_classifier and n_states likelihood where
    "assemble_results after n_states likelihood (length spikes) time True = Inr results"
    "length likelihood = length spikes"
    by blast
  then show "final_posteriors_agree results"
    using a assemble_results_final[of after n_states likelihood "length spikes" time results]
    by auto
next
  assume a: "fst (ClusterlessClassifier_predict h clusterless multiunits time True) =
      Inr results' \<and>
    multiunits \<noteq> [] \<and>
    (\<forall>centers models intensities occupancy rates interior l.
       estimate_multiunit_likelihood h multiunits centers models intensities occupancy rates
         interior = Inr l \<longrightarrow> length l = length multiunits)"
  then have "fst (ClusterlessClassifier_predict h clusterless multiunits time True) =
      Inr results'"
    by simp
  from ClusterlessClassifier_predict_Inr[OF this] a
  obtain after :: clusterless_classifier and n_states likelihood where
    "assemble_results after n_states likelihood (length multiunits) time True =
       Inr results'"
    "length likelihood = length multiunits"
    by blast
  then show "final_posteriors_agree results'"
    using a assemble_results_final[of after n_states likelihood "length multiunits" time
              results']
    by auto
qed

theorem acausal_final_equals_causal_witness:
  "(case fst (SortedSpikesClassifier_predict example_helpers
        (SortedSpikesClassifier_default
           \<lparr>continuous_transition_types := [[''uniform'', ''uniform''], [''uniform'', ''uniform'']],
            edges' := Some [[0, 1]],
            place_bin_centers' := Some [[1/2]],
            initial_conditions' := Some [[1/2], [1/2]],
            continuous_state_transition' :=
              Some [[[[1]], [[1]]], [[[1]], [[1]]]],
            discrete_state_transition' := Some [[99/100, 1/100], [1/100, 99/100]],
            place_fields' := Some [],
            is_track_interior' := Some \<lparr>shape = [1], data = [True]\<rparr>\<rparr>)
        [[0], [1]] None True) of
      Inr results \<Rightarrow> final_posteriors_agree results
    | Inl e \<Rightarrow> False)"
proof -
  let ?self = "SortedSpikesClassifier_default
           \<lparr>continuous_transition_types := [[''uniform'', ''uniform''], [''uniform'', ''uniform'']],
            edges' := Some [[0, 1]],
            place_bin_centers' := Some [[1/2]],
            initial_conditions' := Some [[1/2], [1/2]],
            continuous_state_transition' :=
              Some [[[[1]], [[1]]], [[[1]], [[1]]]],
            discrete_state_transition' := Some [[99/100, 1/100], [1/100, 99/100]],
            place_fields' := Some [],
            is_track_interior' := Some \<lparr>shape = [1], data = [True]\<rparr>\<rparr>"
  have run: "fst (SortedSpikesClassifier_predict example_helpers ?self [[0], [1]] None True) =
      assemble_results ?self 2 [[1], [1]] 2 None True"
    by (simp add: SortedSpikesClassifier_predict_def example_helpers_def numeral_2_eq_2
          Let_def)
  have "case assemble_results ?self 2 [[1], [1]] 2 None True of
      Inr results \<Rightarrow> True | Inl e \<Rightarrow> False"
    by code_simp
  then have "case fst (SortedSpikesClassifier_predict example_helpers ?self [[0], [1]] None True) of
      Inr results \<Rightarrow> True | Inl e \<Rightarrow> False"
    by (simp only: run)
  then obtain results where
    r: "fst (SortedSpikesClassifier_predict example_helpers ?self [[0], [1]] None True) =
          Inr results"
    by (auto split: sum.splits)
  have l: "\<forall>fields interior l.
      estimate_spiking_likelihood example_helpers [[0], [1]] fields interior = Inr l \<longrightarrow>
        length l = length [[0], [1::real]]"
    by (auto simp: example_helpers_def)
  have "final_posteriors_agree results"
    using acausal_final_equals_causal
            [of example_helpers ?self "[[0], [1]]" None results undefined "[]" undefined]
      r l by blast
  with r show ?thesis by simp
qed

section \<open>The row sums of the fitted transition tensor\<close>





















































end
